theory Spec2Isabelle
  imports Complex_Main "HOL-Library.Finite_Map" "HOL-Library.Sublist"
begin

section \<open>JSON values\<close>

text \<open>
  Request bodies, validated data and stored movies are JavaScript values that came out of
  \<^verbatim>\<open>JSON.parse\<close> (\<^verbatim>\<open>express.json()\<close>, \<^verbatim>\<open>require('./movies.json')\<close>).
  A number is a double; every finite double is a rational, and the two infinities, which
  \<^verbatim>\<open>JSON.parse\<close> can produce from an overlong literal, are rejected by every numeric
  field of the schema below (none is an integer, none lies in a bounded range), so numbers
  are modelled as rationals. An object is a finite map from property names to values: the
  order of its keys plays no part in any handler. \<^verbatim>\<open>undefined\<close> is \<open>None\<close> of an
  option type.
\<close>

datatype json =
    JNull
  | JBool bool
  | JNum rat
  | JStr string
  | JArr "json list"
  | JObj "(string, json) fmap"

type_synonym obj = "(string, json) fmap"

section \<open>The schema library (zod)\<close>

text \<open>
  Modelled from the spec: the zod library, which \<^verbatim>\<open>schemas/movies.js\<close> requires, is an
  external dependency that is not under src/. The combinators the schema uses
  (\<^verbatim>\<open>z.string\<close>, \<^verbatim>\<open>z.number().int().min().max().positive()\<close>, \<^verbatim>\<open>z.array\<close>,
  \<^verbatim>\<open>z.enum\<close>, \<^verbatim>\<open>.default\<close>, \<^verbatim>\<open>z.object\<close>, \<^verbatim>\<open>.partial\<close>, \<^verbatim>\<open>.safeParse\<close>) are given
  the meaning section 4.1 of the specification describes, which is that of zod 3: a field
  is checked against its type and then against every check of its chain, the issues of all
  fields are collected, keys outside the shape are stripped, a default replaces
  \<^verbatim>\<open>undefined\<close> only, and an optional field that is \<^verbatim>\<open>undefined\<close> is not checked at all.
\<close>

datatype path_elem = Key string | Index nat

datatype ztype = TString | TNumber | TInteger | TArray | TObject | TEnum

datatype issue_code =
    invalid_type ztype
  | too_small
  | too_big
  | invalid_enum_value

datatype issue = Issue (code: issue_code) (path: "path_elem list")

text \<open>A check of a number chain: \<^verbatim>\<open>.int()\<close>, \<^verbatim>\<open>.min(v)\<close> and \<^verbatim>\<open>.max(v)\<close> (inclusive),
  \<^verbatim>\<open>.positive()\<close> (a minimum of 0, exclusive).\<close>

datatype zcheck = CInt | CMin rat bool | CMax rat bool

datatype schema =
    ZString
  | ZNumber "zcheck list"
  | ZArray schema
  | ZEnum "string list"
  | ZDefault schema json
  | ZOptional schema

definition isInteger :: "rat \<Rightarrow> bool" where
  "isInteger x = (of_int \<lfloor>x\<rfloor> = x)"

fun check_issues :: "path_elem list \<Rightarrow> rat \<Rightarrow> zcheck \<Rightarrow> issue list" where
  "check_issues p x CInt = (if isInteger x then [] else [Issue (invalid_type TInteger) p])"
| "check_issues p x (CMin v inclusive) =
     (if (if inclusive then x < v else x \<le> v) then [Issue too_small p] else [])"
| "check_issues p x (CMax v inclusive) =
     (if (if inclusive then x > v else x \<ge> v) then [Issue too_big p] else [])"

text \<open>
  \<open>parse s p v\<close> is the parse of the input \<open>v\<close> (\<open>None\<close> for \<^verbatim>\<open>undefined\<close>) found at
  path \<open>p\<close> against \<open>s\<close>: the issues it adds, and the value it yields. The value counts
  only when there is no issue (\<open>safeParse\<close> drops it otherwise), so an invalid parse
  yields \<open>None\<close>.
\<close>

fun parse :: "schema \<Rightarrow> path_elem list \<Rightarrow> json option \<Rightarrow> issue list \<times> json option" where
  "parse ZString p v =
     (case v of
        Some (JStr s) \<Rightarrow> ([], Some (JStr s))
      | _ \<Rightarrow> ([Issue (invalid_type TString) p], None))"
| "parse (ZNumber checks) p v =
     (case v of
        Some (JNum x) \<Rightarrow>
          (let issues = concat (map (check_issues p x) checks)
           in (issues, if issues = [] then Some (JNum x) else None))
      | _ \<Rightarrow> ([Issue (invalid_type TNumber) p], None))"
| "parse (ZArray element) p v =
     (case v of
        Some (JArr xs) \<Rightarrow>
          (let rs = map (\<lambda>(i, x). parse element (p @ [Index i]) (Some x)) (enumerate 0 xs);
               issues = concat (map fst rs)
           in (issues, if issues = [] then Some (JArr (List.map_filter snd rs)) else None))
      | _ \<Rightarrow> ([Issue (invalid_type TArray) p], None))"
| "parse (ZEnum values) p v =
     (case v of
        Some (JStr s) \<Rightarrow>
          (if s \<in> set values then ([], Some (JStr s)) else ([Issue invalid_enum_value p], None))
      | _ \<Rightarrow> ([Issue (invalid_type TEnum) p], None))"
| "parse (ZDefault inner d) p v =
     (case v of None \<Rightarrow> parse inner p (Some d) | Some x \<Rightarrow> parse inner p (Some x))"
| "parse (ZOptional inner) p v =
     (case v of None \<Rightarrow> ([], None) | Some x \<Rightarrow> parse inner p (Some x))"

text \<open>\<^verbatim>\<open>z.object(shape)\<close>: a shape is the list of its keys with their schemas.
  \<^verbatim>\<open>.partial()\<close> wraps every field in an optional.\<close>

type_synonym shape = "(string \<times> schema) list"

definition partial :: "shape \<Rightarrow> shape" where
  "partial sh = map (\<lambda>(k, s). (k, ZOptional s)) sh"

definition field_parse :: "obj \<Rightarrow> string \<times> schema \<Rightarrow> issue list \<times> json option" where
  "field_parse ob ks = parse (snd ks) [Key (fst ks)] (fmlookup ob (fst ks))"

definition object_issues :: "shape \<Rightarrow> obj \<Rightarrow> issue list" where
  "object_issues sh ob = concat (map (\<lambda>ks. fst (field_parse ob ks)) sh)"

definition object_data :: "shape \<Rightarrow> obj \<Rightarrow> obj" where
  "object_data sh ob =
     fmap_of_list (List.map_filter (\<lambda>ks. map_option (Pair (fst ks)) (snd (field_parse ob ks))) sh)"

text \<open>The result of \<^verbatim>\<open>safeParse\<close>: \<^verbatim>\<open>{success: true, data}\<close> or
  \<^verbatim>\<open>{success: false, error}\<close>.\<close>

datatype result = Success obj | Failure "issue list"

fun success :: "result \<Rightarrow> bool" where
  "success (Success d) = True"
| "success (Failure e) = False"

fun result_data :: "result \<Rightarrow> obj option" where
  "result_data (Success d) = Some d"
| "result_data (Failure e) = None"

fun result_error :: "result \<Rightarrow> issue list option" where
  "result_error (Success d) = None"
| "result_error (Failure e) = Some e"

definition safeParse :: "shape \<Rightarrow> json option \<Rightarrow> result" where
  "safeParse sh v =
     (case v of
        Some (JObj ob) \<Rightarrow>
          (let issues = object_issues sh ob
           in if issues = [] then Success (object_data sh ob) else Failure issues)
      | _ \<Rightarrow> Failure [Issue (invalid_type TObject) []])"

section \<open>schemas/movies.js\<close>

text \<open>
  \<^verbatim>\<open>movieSchema\<close> is a module-level constant: \<^verbatim>\<open>new Date().getFullYear()\<close> is evaluated
  once, when the module is loaded. The parameter of the model is that year.
\<close>

definition GENRES :: "string list" where
  "GENRES = [''action'', ''adventure'', ''sci-fi'', ''fantasy'', ''drama'', ''crime'']"

definition movieSchema :: "int \<Rightarrow> shape" where
  "movieSchema loadYear =
     [(''title'', ZString),
      (''year'', ZNumber [CInt, CMin 1900 True, CMax (of_int loadYear) True]),
      (''director'', ZString),
      (''duration'', ZNumber [CInt, CMin 0 False]),
      (''genre'', ZArray (ZEnum GENRES)),
      (''rating'', ZDefault (ZNumber [CMin 0 True, CMax 10 True]) (JNum 5))]"

definition validateMovie :: "int \<Rightarrow> json option \<Rightarrow> result" where
  "validateMovie loadYear object = safeParse (movieSchema loadYear) object"

definition validateMoviePartial :: "int \<Rightarrow> json option \<Rightarrow> result" where
  "validateMoviePartial loadYear object = safeParse (partial (movieSchema loadYear)) object"

section \<open>server.js: requests, responses and the collection\<close>

text \<open>
  What a handler reads of the request: the \<^verbatim>\<open>Origin\<close> header, the \<^verbatim>\<open>:id\<close> segment of
  the path, the \<^verbatim>\<open>genre\<close> query parameter and the parsed body.
\<close>

record request =
  origin :: "string option"
  params_id :: string
  query_genre :: "string option"
  body :: "json option"

text \<open>What a handler sends: \<^verbatim>\<open>res.json(movies)\<close>, \<^verbatim>\<open>res.json(movie)\<close>,
  \<^verbatim>\<open>res.json({error: ...})\<close>, \<^verbatim>\<open>res.json({message: ...})\<close>, \<^verbatim>\<open>res.end(html)\<close> and
  \<^verbatim>\<open>res.send(200)\<close>.\<close>

datatype content =
    JsonMovies "obj list"
  | JsonMovie obj
  | JsonError "issue list"
  | JsonMessage string
  | Html string
  | SendNumber nat

record response =
  status :: nat
  headers :: "(string \<times> string) list"
  content :: content

text \<open>
  The response object \<^verbatim>\<open>res\<close>: the status code and the headers set so far, and the
  response that went out, if one did. A second send on the same object throws
  \<^verbatim>\<open>ERR_HTTP_HEADERS_SENT\<close>; the client keeps the first response.
\<close>

datatype error = TypeError | ERR_HTTP_HEADERS_SENT

record res =
  statusCode :: nat
  res_headers :: "(string \<times> string) list"
  sent :: "response option"

definition res0 :: res where
  "res0 = \<lparr>statusCode = 200, res_headers = [], sent = None\<rparr>"

text \<open>\<^verbatim>\<open>res.header(name, value)\<close>; the handlers call it on a fresh response only.\<close>

definition res_header :: "string \<Rightarrow> string \<Rightarrow> res \<Rightarrow> res" where
  "res_header name v r = r\<lparr>res_headers := res_headers r @ [(name, v)]\<rparr>"

definition res_status :: "nat \<Rightarrow> res \<Rightarrow> res" where
  "res_status n r = r\<lparr>statusCode := n\<rparr>"

definition res_send :: "content \<Rightarrow> res \<Rightarrow> error + res" where
  "res_send c r =
     (case sent r of
        Some first \<Rightarrow> Inl ERR_HTTP_HEADERS_SENT
      | None \<Rightarrow> Inr (r\<lparr>sent := Some \<lparr>status = statusCode r, headers = res_headers r, content = c\<rparr>\<rparr>))"

text \<open>
  The outcome of a handler: the response object as the handler left it, the collection
  \<^verbatim>\<open>movies\<close> as it left it, and the exception that escaped the handler, if any.
  \<open>reply\<close> is the response the client received from the handler.
\<close>

record outcome =
  out_res :: res
  out_movies :: "obj list"
  thrown :: "error option"

definition reply :: "outcome \<Rightarrow> response option" where
  "reply oc = sent (out_res oc)"

text \<open>\<^verbatim>\<open>res.status(code).json(c)\<close> (or \<^verbatim>\<open>.end\<close>, \<^verbatim>\<open>.send\<close>) as the last statement of a handler.\<close>

definition respond :: "nat \<Rightarrow> content \<Rightarrow> res \<Rightarrow> obj list \<Rightarrow> outcome" where
  "respond n c r ms =
     (case res_send c (res_status n r) of
        Inl e \<Rightarrow> \<lparr>out_res = res_status n r, out_movies = ms, thrown = Some e\<rparr>
      | Inr r' \<Rightarrow> \<lparr>out_res = r', out_movies = ms, thrown = None\<rparr>)"

definition ACCEPTED_ORIGINS :: "string list" where
  "ACCEPTED_ORIGINS = [''http://localhost:8080'', ''http://localhost:1234'', ''https://movies.com'']"

subsection \<open>JavaScript helpers\<close>

text \<open>\<^verbatim>\<open>String.prototype.toLowerCase\<close> on the ASCII letters.\<close>

definition lower_char :: "char \<Rightarrow> char" where
  "lower_char c = (let n = (of_char c :: nat) in if 65 \<le> n \<and> n \<le> 90 then char_of (n + 32) else c)"

definition toLowerCase :: "string \<Rightarrow> string" where
  "toLowerCase s = map lower_char s"

text \<open>\<^verbatim>\<open>Array.prototype.some\<close> and \<^verbatim>\<open>filter\<close> with a callback that may throw.\<close>

fun some_js :: "('a \<Rightarrow> error + bool) \<Rightarrow> 'a list \<Rightarrow> error + bool" where
  "some_js f [] = Inr False"
| "some_js f (x # xs) =
     (case f x of Inl e \<Rightarrow> Inl e | Inr True \<Rightarrow> Inr True | Inr False \<Rightarrow> some_js f xs)"

fun filter_js :: "('a \<Rightarrow> error + bool) \<Rightarrow> 'a list \<Rightarrow> error + 'a list" where
  "filter_js f [] = Inr []"
| "filter_js f (x # xs) =
     (case f x of
        Inl e \<Rightarrow> Inl e
      | Inr keep \<Rightarrow>
          (case filter_js f xs of
             Inl e \<Rightarrow> Inl e
           | Inr ys \<Rightarrow> Inr (if keep then x # ys else ys)))"

text \<open>\<^verbatim>\<open>findIndex\<close>: \<open>None\<close> stands for \<^verbatim>\<open>-1\<close>.\<close>

fun findIndex :: "('a \<Rightarrow> bool) \<Rightarrow> 'a list \<Rightarrow> nat option" where
  "findIndex f [] = None"
| "findIndex f (x # xs) = (if f x then Some 0 else map_option Suc (findIndex f xs))"

text \<open>\<^verbatim>\<open>movies.splice(i, 1)\<close>.\<close>

definition splice1 :: "nat \<Rightarrow> 'a list \<Rightarrow> 'a list" where
  "splice1 i xs = take i xs @ drop (Suc i) xs"

text \<open>\<^verbatim>\<open>...result.data\<close> inside an object literal: spreading \<^verbatim>\<open>undefined\<close> adds nothing.\<close>

fun spread :: "obj option \<Rightarrow> obj" where
  "spread None = fmempty"
| "spread (Some d) = d"

text \<open>\<^verbatim>\<open>movie.id === id\<close>, with \<open>id\<close> the string of the path.\<close>

definition has_id :: "string \<Rightarrow> obj \<Rightarrow> bool" where
  "has_id i movie = (fmlookup movie ''id'' = Some (JStr i))"

subsection \<open>The origin check\<close>

text \<open>
  \<^verbatim>\<open>req.header('origin' || !origin)\<close> is \<^verbatim>\<open>req.header('origin')\<close>, since the string is
  truthy; \<^verbatim>\<open>ACCEPTED_ORIGINS.includes(undefined)\<close> is false.
\<close>

definition cors :: "request \<Rightarrow> res \<Rightarrow> res" where
  "cors req r =
     (case origin req of
        Some og \<Rightarrow>
          if og \<in> set ACCEPTED_ORIGINS then res_header ''Access-Control-Allow-Origin'' og r else r
      | None \<Rightarrow> r)"

text \<open>
  In the pre-flight handler the test is \<^verbatim>\<open>includes(origin || !origin)\<close>: an absent or
  empty origin turns into \<^verbatim>\<open>true\<close>, which the list does not include.
\<close>

definition cors_preflight :: "request \<Rightarrow> res \<Rightarrow> res" where
  "cors_preflight req r =
     (case origin req of
        Some og \<Rightarrow>
          if og \<noteq> [] \<and> og \<in> set ACCEPTED_ORIGINS
          then res_header ''Access-Control-Allow-Headers'' ''Content-Type, Authorization''
                 (res_header ''Access-Control-Allow-Methods'' ''GET, POST, PATCH, DELETE''
                   (res_header ''Access-Control-Allow-Origin'' og r))
          else r
      | None \<Rightarrow> r)"

subsection \<open>The handlers\<close>

text \<open>
  \<^verbatim>\<open>movie.genre.some(g => g.toLowerCase() === g.toLowerCase())\<close>: the element is compared
  with itself. A \<^verbatim>\<open>genre\<close> that is not an array, or an element that is not a string,
  throws a \<^verbatim>\<open>TypeError\<close>.
\<close>

definition genre_test :: "json \<Rightarrow> error + bool" where
  "genre_test g = (case g of JStr s \<Rightarrow> Inr (toLowerCase s = toLowerCase s) | _ \<Rightarrow> Inl TypeError)"

definition movie_test :: "obj \<Rightarrow> error + bool" where
  "movie_test movie =
     (case fmlookup movie ''genre'' of
        Some (JArr gs) \<Rightarrow> some_js genre_test gs
      | _ \<Rightarrow> Inl TypeError)"

text \<open>\<^verbatim>\<open>app.get('/movies')\<close>; \<^verbatim>\<open>if (genre)\<close> is false for an absent or empty parameter.\<close>

definition get_movies :: "request \<Rightarrow> obj list \<Rightarrow> outcome" where
  "get_movies req movies =
     (let res1 = cors req res0
      in if query_genre req \<noteq> None \<and> query_genre req \<noteq> Some []
         then (case filter_js movie_test movies of
                 Inl e \<Rightarrow> \<lparr>out_res = res1, out_movies = movies, thrown = Some e\<rparr>
               | Inr filteredMovies \<Rightarrow> respond 200 (JsonMovies filteredMovies) res1 movies)
         else respond 200 (JsonMovies movies) res1 movies)"

text \<open>\<^verbatim>\<open>app.get('/movies/:id')\<close>\<close>

definition get_movie :: "request \<Rightarrow> obj list \<Rightarrow> outcome" where
  "get_movie req movies =
     (case List.find (has_id (params_id req)) movies of
        Some movie \<Rightarrow> respond 200 (JsonMovie movie) res0 movies
      | None \<Rightarrow> respond 400 (Html ''<h1>Movie not found</h1>'') res0 movies)"

text \<open>
  \<^verbatim>\<open>app.post('/movies')\<close>; \<open>uuid\<close> is what \<^verbatim>\<open>crypto.randomUUID()\<close> returns. There is no
  \<^verbatim>\<open>return\<close> after the 400 response: the handler goes on, builds the movie from
  \<^verbatim>\<open>result.data\<close> (which is \<^verbatim>\<open>undefined\<close> then), pushes it, and its second response throws.
\<close>

definition post_movies :: "int \<Rightarrow> string \<Rightarrow> request \<Rightarrow> obj list \<Rightarrow> outcome" where
  "post_movies loadYear uuid req movies =
     (let result = validateMovie loadYear (body req)
      in case (case result_error result of
                 Some e \<Rightarrow> res_send (JsonError e) (res_status 400 res0)
               | None \<Rightarrow> Inr res0) of
           Inl e \<Rightarrow> \<lparr>out_res = res0, out_movies = movies, thrown = Some e\<rparr>
         | Inr res1 \<Rightarrow>
             (let newMovie = fmupd ''id'' (JStr uuid) fmempty ++\<^sub>f spread (result_data result)
              in respond 201 (JsonMovie newMovie) res1 (movies @ [newMovie])))"

text \<open>\<^verbatim>\<open>app.patch('/movies/:id')\<close>; again no \<^verbatim>\<open>return\<close> after the 400 response.\<close>

definition patch_movie :: "int \<Rightarrow> request \<Rightarrow> obj list \<Rightarrow> outcome" where
  "patch_movie loadYear req movies =
     (let result = validateMoviePartial loadYear (body req)
      in case (case result of
                 Failure e \<Rightarrow> res_send (JsonError e) (res_status 400 res0)
               | Success d \<Rightarrow> Inr res0) of
           Inl e \<Rightarrow> \<lparr>out_res = res0, out_movies = movies, thrown = Some e\<rparr>
         | Inr res1 \<Rightarrow>
             (case findIndex (has_id (params_id req)) movies of
                None \<Rightarrow> respond 404 (JsonMessage ''Movie not found'') res1 movies
              | Some movieIndex \<Rightarrow>
                  (let updatedMovie = (movies ! movieIndex) ++\<^sub>f spread (result_data result)
                   in respond 201 (JsonMovie updatedMovie) res1
                        (movies[movieIndex := updatedMovie]))))"

text \<open>\<^verbatim>\<open>app.delete('/movies/:id')\<close>\<close>

definition delete_movie :: "request \<Rightarrow> obj list \<Rightarrow> outcome" where
  "delete_movie req movies =
     (let res1 = cors req res0
      in case findIndex (has_id (params_id req)) movies of
           None \<Rightarrow> respond 404 (JsonMessage ''Movie not found'') res1 movies
         | Some movieIndex \<Rightarrow>
             respond (statusCode res1) (JsonMessage ''Movie deleted'') res1 (splice1 movieIndex movies))"

text \<open>\<^verbatim>\<open>app.options('/movies/:id')\<close>\<close>

definition options_movie :: "request \<Rightarrow> obj list \<Rightarrow> outcome" where
  "options_movie req movies =
     (let res1 = cors_preflight req res0
      in respond (statusCode res1) (SendNumber 200) res1 movies)"

section \<open>The specification's side\<close>

text \<open>
  The definitions of this section follow the words of the specification, not the code:
  the field contract of its sections 3 and 4.1, and the store operations of section 4.2.
\<close>

definition FIELDS :: "string list" where
  "FIELDS = [''title'', ''year'', ''director'', ''duration'', ''genre'', ''rating'']"

fun spec_text :: "json \<Rightarrow> bool" where
  "spec_text (JStr s) = True"
| "spec_text v = False"

text \<open>\<open>year\<close>: an integer, bounded by 1900 and the calendar year \<open>y\<close>.\<close>

fun spec_year :: "int \<Rightarrow> json \<Rightarrow> bool" where
  "spec_year y (JNum x) = (x \<in> \<int> \<and> 1900 \<le> x \<and> x \<le> of_int y)"
| "spec_year y v = False"

fun spec_duration :: "json \<Rightarrow> bool" where
  "spec_duration (JNum x) = (x \<in> \<int> \<and> 0 < x)"
| "spec_duration v = False"

fun spec_tag :: "json \<Rightarrow> bool" where
  "spec_tag (JStr s) = (s \<in> set GENRES)"
| "spec_tag v = False"

fun spec_genre :: "json \<Rightarrow> bool" where
  "spec_genre (JArr gs) = list_all spec_tag gs"
| "spec_genre v = False"

fun spec_rating :: "json \<Rightarrow> bool" where
  "spec_rating (JNum x) = (0 \<le> x \<and> x \<le> 10)"
| "spec_rating v = False"

definition spec_constraint :: "int \<Rightarrow> string \<Rightarrow> json \<Rightarrow> bool" where
  "spec_constraint y f v =
     (if f = ''title'' then spec_text v
      else if f = ''year'' then spec_year y v
      else if f = ''director'' then spec_text v
      else if f = ''duration'' then spec_duration v
      else if f = ''genre'' then spec_genre v
      else if f = ''rating'' then spec_rating v
      else True)"

text \<open>A field of a full candidate is in order when it is present and conforms; \<open>rating\<close>
  alone may be absent. A field of a partial candidate is in order when it is absent or
  conforms.\<close>

definition spec_field_full :: "int \<Rightarrow> obj \<Rightarrow> string \<Rightarrow> bool" where
  "spec_field_full y ob f =
     (case fmlookup ob f of None \<Rightarrow> f = ''rating'' | Some v \<Rightarrow> spec_constraint y f v)"

definition spec_field_partial :: "int \<Rightarrow> obj \<Rightarrow> string \<Rightarrow> bool" where
  "spec_field_partial y ob f =
     (case fmlookup ob f of None \<Rightarrow> True | Some v \<Rightarrow> spec_constraint y f v)"

definition spec_validateFull :: "int \<Rightarrow> obj \<Rightarrow> bool" where
  "spec_validateFull y ob = list_all (spec_field_full y ob) FIELDS"

definition spec_validatePartial :: "int \<Rightarrow> obj \<Rightarrow> bool" where
  "spec_validatePartial y ob = list_all (spec_field_partial y ob) FIELDS"

text \<open>The fields of a candidate that belong to the resource, and the default of
  \<open>rating\<close>.\<close>

definition spec_fields :: "obj \<Rightarrow> obj" where
  "spec_fields ob = fmrestrict_set (set FIELDS) ob"

definition spec_defaulted :: "obj \<Rightarrow> obj" where
  "spec_defaulted ob =
     (case fmlookup ob ''rating'' of None \<Rightarrow> fmupd ''rating'' (JNum 5) ob | Some r \<Rightarrow> ob)"

text \<open>
  The violated constraints of a candidate, field by field in the order of the schema, each
  as the issue that names it: a missing or mistyped field (the expected type), a number
  that is not an integer, a number below its minimum or above its maximum, an element of
  \<open>genre\<close> that is no string or no tag of the enumeration (with its index). An omitted
  \<open>rating\<close> violates nothing.
\<close>

fun spec_text_violations :: "string \<Rightarrow> json option \<Rightarrow> issue list" where
  "spec_text_violations f (Some (JStr s)) = []"
| "spec_text_violations f v = [Issue (invalid_type TString) [Key f]]"

fun spec_year_violations :: "int \<Rightarrow> json option \<Rightarrow> issue list" where
  "spec_year_violations y (Some (JNum x)) =
     (if x \<in> \<int> then [] else [Issue (invalid_type TInteger) [Key ''year'']]) @
     (if x < 1900 then [Issue too_small [Key ''year'']] else []) @
     (if of_int y < x then [Issue too_big [Key ''year'']] else [])"
| "spec_year_violations y v = [Issue (invalid_type TNumber) [Key ''year'']]"

fun spec_duration_violations :: "json option \<Rightarrow> issue list" where
  "spec_duration_violations (Some (JNum x)) =
     (if x \<in> \<int> then [] else [Issue (invalid_type TInteger) [Key ''duration'']]) @
     (if x \<le> 0 then [Issue too_small [Key ''duration'']] else [])"
| "spec_duration_violations v = [Issue (invalid_type TNumber) [Key ''duration'']]"

fun spec_tag_violations :: "nat \<Rightarrow> json \<Rightarrow> issue list" where
  "spec_tag_violations i (JStr s) =
     (if s \<in> set GENRES then [] else [Issue invalid_enum_value [Key ''genre'', Index i]])"
| "spec_tag_violations i v = [Issue (invalid_type TEnum) [Key ''genre'', Index i]]"

fun spec_genre_violations :: "json option \<Rightarrow> issue list" where
  "spec_genre_violations (Some (JArr gs)) =
     concat (map (\<lambda>i. spec_tag_violations i (gs ! i)) [0..<length gs])"
| "spec_genre_violations v = [Issue (invalid_type TArray) [Key ''genre'']]"

fun spec_rating_violations :: "json option \<Rightarrow> issue list" where
  "spec_rating_violations None = []"
| "spec_rating_violations (Some (JNum x)) =
     (if x < 0 then [Issue too_small [Key ''rating'']] else []) @
     (if 10 < x then [Issue too_big [Key ''rating'']] else [])"
| "spec_rating_violations (Some v) = [Issue (invalid_type TNumber) [Key ''rating'']]"

definition spec_violations :: "int \<Rightarrow> obj \<Rightarrow> issue list" where
  "spec_violations y ob =
     spec_text_violations ''title'' (fmlookup ob ''title'') @
     spec_year_violations y (fmlookup ob ''year'') @
     spec_text_violations ''director'' (fmlookup ob ''director'') @
     spec_duration_violations (fmlookup ob ''duration'') @
     spec_genre_violations (fmlookup ob ''genre'') @
     spec_rating_violations (fmlookup ob ''rating'')"

text \<open>An issue is about the field \<open>f\<close> when its path starts with that key.\<close>

definition about :: "string \<Rightarrow> issue \<Rightarrow> bool" where
  "about f e = (case path e of Key k # rest \<Rightarrow> k = f | _ \<Rightarrow> False)"

text \<open>\<open>listByGenre(tag)\<close>: the resources whose \<open>genre\<close> sequence contains a
  case-insensitive match of the tag.\<close>

fun spec_tag_matches :: "string \<Rightarrow> json \<Rightarrow> bool" where
  "spec_tag_matches tag (JStr g) = (toLowerCase g = toLowerCase tag)"
| "spec_tag_matches tag v = False"

fun spec_genre_matches :: "string \<Rightarrow> json option \<Rightarrow> bool" where
  "spec_genre_matches tag (Some (JArr gs)) = list_ex (spec_tag_matches tag) gs"
| "spec_genre_matches tag v = False"

definition spec_listByGenre :: "string \<Rightarrow> obj list \<Rightarrow> obj list" where
  "spec_listByGenre tag movies =
     filter (\<lambda>movie. spec_genre_matches tag (fmlookup movie ''genre'')) movies"

text \<open>What the business operation of a handler did, apart from the headers: the status
  and content of the reply, the collection, and the exception.\<close>

definition business :: "outcome \<Rightarrow> (nat \<times> content) option \<times> obj list \<times> error option" where
  "business oc = (map_option (\<lambda>r. (status r, content r)) (reply oc), out_movies oc, thrown oc)"

text \<open>The decision of the origin gate, as the headers it grants: nothing for an absent
  or unlisted origin, the origin itself for a listed one; the pre-flight exchange adds the
  permitted methods and headers.\<close>

definition spec_authorize :: "string option \<Rightarrow> (string \<times> string) list" where
  "spec_authorize og =
     (case og of
        None \<Rightarrow> []
      | Some a \<Rightarrow> if a \<in> set ACCEPTED_ORIGINS then [(''Access-Control-Allow-Origin'', a)] else [])"

definition spec_authorize_preflight :: "string option \<Rightarrow> (string \<times> string) list" where
  "spec_authorize_preflight og =
     (case og of
        None \<Rightarrow> []
      | Some a \<Rightarrow>
          if a \<in> set ACCEPTED_ORIGINS
          then [(''Access-Control-Allow-Origin'', a),
                (''Access-Control-Allow-Methods'', ''GET, POST, PATCH, DELETE''),
                (''Access-Control-Allow-Headers'', ''Content-Type, Authorization'')]
          else [])"

section \<open>The validator: auxiliary facts\<close>

lemma isInteger_iff: "isInteger x \<longleftrightarrow> x \<in> \<int>"
  unfolding isInteger_def by (metis Ints_of_int Ints_cases floor_of_int)

lemma parse_prefix: "e \<in> set (fst (parse s p v)) \<Longrightarrow> prefix p (path e)"
proof (induction s arbitrary: p v e)
  case ZString
  then show ?case by (auto split: option.splits json.splits)
next
  case (ZNumber cs)
  have "\<And>c x. e \<in> set (check_issues p x c) \<Longrightarrow> path e = p"
    subgoal for c x by (cases c) (auto split: if_splits)
    done
  with ZNumber show ?case by (auto split: option.splits json.splits simp: Let_def)
next
  case (ZArray s)
  then show ?case
    by (auto split: option.splits json.splits simp: Let_def dest!: ZArray.IH dest: append_prefixD)
next
  case (ZEnum x)
  then show ?case by (auto split: option.splits json.splits if_splits)
next
  case (ZDefault s x2a)
  then show ?case by (auto split: option.splits)
next
  case (ZOptional s)
  then show ?case by (auto split: option.splits)
qed

lemma parse_value: "fst (parse s p (Some x)) = [] \<Longrightarrow> snd (parse s p (Some x)) = Some x"
proof (induction s arbitrary: p x)
  case (ZArray s)
  have aux: "\<And>n. \<forall>r \<in> set (map (\<lambda>(i, x). parse s (p @ [Index i]) (Some x)) (enumerate n xs)). fst r = []
     \<Longrightarrow> List.map_filter snd (map (\<lambda>(i, x). parse s (p @ [Index i]) (Some x)) (enumerate n xs)) = xs" for xs
  proof (induction xs)
    case Nil
    then show ?case by (simp add: map_filter_simps)
  next
    case (Cons a xs)
    from Cons.prems have "fst (parse s (p @ [Index n]) (Some a)) = []" by simp
    then have "snd (parse s (p @ [Index n]) (Some a)) = Some a" by (rule ZArray.IH)
    moreover have "List.map_filter snd (map (\<lambda>(i, x). parse s (p @ [Index i]) (Some x)) (enumerate (Suc n) xs)) = xs"
      using Cons.prems by (intro Cons.IH) simp
    ultimately show ?case by (simp add: map_filter_simps)
  qed
  show ?case
  proof (cases x)
    case (JArr xs)
    with ZArray.prems
    have "\<forall>r \<in> set (map (\<lambda>(i, x). parse s (p @ [Index i]) (Some x)) (enumerate 0 xs)). fst r = []"
      by (simp add: Let_def)
    then show ?thesis using JArr ZArray.prems by (simp add: Let_def aux)
  qed (use ZArray.prems in simp_all)
qed (auto split: json.splits if_splits simp: Let_def)

lemma parse_text: "fst (parse ZString p v) = [] \<longleftrightarrow> (\<exists>x. v = Some x \<and> spec_text x)"
  by (cases v; cases "the v") auto

lemma parse_year: "fst (parse (ZNumber [CInt, CMin 1900 True, CMax (of_int y) True]) p v) = [] \<longleftrightarrow> (\<exists>x. v = Some x \<and> spec_year y x)"
  by (cases v; cases "the v") (auto simp: isInteger_iff)

lemma parse_duration: "fst (parse (ZNumber [CInt, CMin 0 False]) p v) = [] \<longleftrightarrow> (\<exists>x. v = Some x \<and> spec_duration x)"
  by (cases v; cases "the v") (auto simp: isInteger_iff)

lemma parse_tag: "fst (parse (ZEnum GENRES) p (Some g)) = [] \<longleftrightarrow> spec_tag g"
  by (cases g) auto

lemma parse_tags: "concat (map fst (map (\<lambda>(i, x). parse (ZEnum GENRES) (p @ [Index i]) (Some x)) (enumerate n gs))) = [] \<longleftrightarrow> list_all spec_tag gs"
  by (induction gs arbitrary: n) (simp_all add: parse_tag del: parse.simps)

lemma parse_genre: "fst (parse (ZArray (ZEnum GENRES)) p v) = [] \<longleftrightarrow> (\<exists>x. v = Some x \<and> spec_genre x)"
proof (cases v)
  case None
  then show ?thesis by simp
next
  case (Some x)
  then show ?thesis
    using parse_tags [of p 0] by (cases x) (simp_all add: Let_def del: parse.simps(4))
qed

lemma parse_rating: "fst (parse (ZDefault (ZNumber [CMin 0 True, CMax 10 True]) (JNum 5)) p v) = [] \<longleftrightarrow> (case v of None \<Rightarrow> True | Some x \<Rightarrow> spec_rating x)"
  by (cases v; cases "the v") auto

lemmas parse_fields = parse_text parse_year parse_duration parse_genre parse_rating

lemma constraint_simps:
  "spec_constraint y ''title'' v = spec_text v"
  "spec_constraint y ''year'' v = spec_year y v"
  "spec_constraint y ''director'' v = spec_text v"
  "spec_constraint y ''duration'' v = spec_duration v"
  "spec_constraint y ''genre'' v = spec_genre v"
  "spec_constraint y ''rating'' v = spec_rating v"
  by (simp_all add: spec_constraint_def)

lemma movie_mem:
  "(f, s) \<in> set (movieSchema y) \<longleftrightarrow>
     f = ''title'' \<and> s = ZString \<or>
     f = ''year'' \<and> s = ZNumber [CInt, CMin 1900 True, CMax (of_int y) True] \<or>
     f = ''director'' \<and> s = ZString \<or>
     f = ''duration'' \<and> s = ZNumber [CInt, CMin 0 False] \<or>
     f = ''genre'' \<and> s = ZArray (ZEnum GENRES) \<or>
     f = ''rating'' \<and> s = ZDefault (ZNumber [CMin 0 True, CMax 10 True]) (JNum 5)"
  by (simp add: movieSchema_def)

lemma movie_field:
  assumes "(f, s) \<in> set (movieSchema y)"
  shows "(fst (parse s [Key f] (fmlookup ob f)) = []) = spec_field_full y ob f"
proof -
  note [simp del] = parse.simps
  from assms [unfolded movie_mem] show ?thesis
  proof (elim disjE conjE)
    assume "f = ''title''" "s = ZString"
    then show ?thesis
      by (simp add: parse_text spec_field_full_def constraint_simps split: option.splits)
  next
    assume "f = ''year''" "s = ZNumber [CInt, CMin 1900 True, CMax (of_int y) True]"
    then show ?thesis
      by (simp add: parse_year spec_field_full_def constraint_simps split: option.splits)
  next
    assume "f = ''director''" "s = ZString"
    then show ?thesis
      by (simp add: parse_text spec_field_full_def constraint_simps split: option.splits)
  next
    assume "f = ''duration''" "s = ZNumber [CInt, CMin 0 False]"
    then show ?thesis
      by (simp add: parse_duration spec_field_full_def constraint_simps split: option.splits)
  next
    assume "f = ''genre''" "s = ZArray (ZEnum GENRES)"
    then show ?thesis
      by (simp add: parse_genre spec_field_full_def constraint_simps split: option.splits)
  next
    assume "f = ''rating''" "s = ZDefault (ZNumber [CMin 0 True, CMax 10 True]) (JNum 5)"
    then show ?thesis
      by (simp add: parse_rating spec_field_full_def constraint_simps split: option.splits)
  qed
qed

lemma partial_field:
  assumes "(f, s) \<in> set (movieSchema y)"
  shows "(fst (parse (ZOptional s) [Key f] (fmlookup ob f)) = []) = spec_field_partial y ob f"
proof (cases "fmlookup ob f")
  case None
  then show ?thesis by (simp add: spec_field_partial_def)
next
  case (Some v)
  with movie_field [OF assms, of ob] show ?thesis
    by (simp add: spec_field_partial_def spec_field_full_def del: parse.simps(1-5))
qed

lemma movie_keys: "map fst (movieSchema y) = FIELDS"
  by (simp add: movieSchema_def FIELDS_def)

lemma partial_keys: "map fst (partial sh) = map fst sh"
  by (simp add: partial_def case_prod_unfold)

lemma partial_mem: "(f, s') \<in> set (partial sh) \<longleftrightarrow> (\<exists>s. s' = ZOptional s \<and> (f, s) \<in> set sh)"
  by (auto simp: partial_def)

lemma object_issues_Nil:
  "object_issues sh ob = [] \<longleftrightarrow> (\<forall>(f, s) \<in> set sh. fst (parse s [Key f] (fmlookup ob f)) = [])"
  by (auto simp: object_issues_def field_parse_def simp del: parse.simps)

lemma movie_issues_Nil: "object_issues (movieSchema y) ob = [] \<longleftrightarrow> spec_validateFull y ob"
proof -
  have "object_issues (movieSchema y) ob = [] \<longleftrightarrow> (\<forall>(f, s) \<in> set (movieSchema y). spec_field_full y ob f)"
    unfolding object_issues_Nil using movie_field [of _ _ y ob] by blast
  also have "\<dots> \<longleftrightarrow> (\<forall>f \<in> set (map fst (movieSchema y)). spec_field_full y ob f)"
    by force
  finally show ?thesis by (simp add: movie_keys spec_validateFull_def list_all_iff)
qed

lemma partial_issues_Nil: "object_issues (partial (movieSchema y)) ob = [] \<longleftrightarrow> spec_validatePartial y ob"
proof -
  have "object_issues (partial (movieSchema y)) ob = [] \<longleftrightarrow>
        (\<forall>(f, s) \<in> set (movieSchema y). fst (parse (ZOptional s) [Key f] (fmlookup ob f)) = [])"
    unfolding object_issues_Nil by (force simp: partial_mem simp del: parse.simps)
  also have "\<dots> \<longleftrightarrow> (\<forall>(f, s) \<in> set (movieSchema y). spec_field_partial y ob f)"
    using partial_field [of _ _ y ob] by blast
  also have "\<dots> \<longleftrightarrow> (\<forall>f \<in> set (map fst (movieSchema y)). spec_field_partial y ob f)"
    by force
  finally show ?thesis by (simp add: movie_keys spec_validatePartial_def list_all_iff)
qed

lemma about_issue:
  "(\<exists>e \<in> set (object_issues sh ob). about f e) \<longleftrightarrow>
   (\<exists>s. (f, s) \<in> set sh \<and> fst (parse s [Key f] (fmlookup ob f)) \<noteq> [])"
proof
  assume "\<exists>e \<in> set (object_issues sh ob). about f e"
  then obtain e k s where e: "about f e" "(k, s) \<in> set sh" "e \<in> set (fst (parse s [Key k] (fmlookup ob k)))"
    by (auto simp: object_issues_def field_parse_def simp del: parse.simps)
  from parse_prefix [OF e(3)] obtain r where "path e = Key k # r"
    by (auto simp: prefix_def)
  with e(1) have "k = f" by (simp add: about_def)
  with e show "\<exists>s. (f, s) \<in> set sh \<and> fst (parse s [Key f] (fmlookup ob f)) \<noteq> []" by auto
next
  assume "\<exists>s. (f, s) \<in> set sh \<and> fst (parse s [Key f] (fmlookup ob f)) \<noteq> []"
  then obtain s where s: "(f, s) \<in> set sh" "fst (parse s [Key f] (fmlookup ob f)) \<noteq> []"
    by blast
  then obtain e where e: "e \<in> set (fst (parse s [Key f] (fmlookup ob f)))"
    by (cases "fst (parse s [Key f] (fmlookup ob f))") auto
  from parse_prefix [OF e] have "about f e"
    by (auto simp: prefix_def about_def)
  moreover from s e have "e \<in> set (object_issues sh ob)"
    by (force simp: object_issues_def field_parse_def simp del: parse.simps)
  ultimately show "\<exists>e \<in> set (object_issues sh ob). about f e" ..
qed

lemma data_notin:
  "f \<notin> fst ` set sh \<Longrightarrow>
   map_of (List.map_filter (\<lambda>ks. map_option (Pair (fst ks)) (snd (field_parse ob ks))) sh) f = None"
  by (induction sh) (auto simp: map_filter_simps split: option.splits)

lemma lookup_object_data:
  "distinct (map fst sh) \<Longrightarrow>
   fmlookup (object_data sh ob) k =
     (case map_of sh k of None \<Rightarrow> None | Some s \<Rightarrow> snd (parse s [Key k] (fmlookup ob k)))"
proof (induction sh)
  case Nil
  then show ?case by (simp add: object_data_def fmlookup_of_list map_filter_simps)
next
  case (Cons a sh)
  obtain f s where a: "a = (f, s)" by (cases a)
  from Cons.prems have f: "f \<notin> fst ` set sh" and d: "distinct (map fst sh)" by (auto simp: a)
  have IH: "map_of (List.map_filter (\<lambda>ks. map_option (Pair (fst ks)) (snd (field_parse ob ks))) sh) k =
     (case map_of sh k of None \<Rightarrow> None | Some s \<Rightarrow> snd (parse s [Key k] (fmlookup ob k)))"
    using Cons.IH [OF d] by (simp add: object_data_def fmlookup_of_list)
  show ?case
  proof (cases "k = f")
    case True
    then show ?thesis
      using data_notin [OF f, of ob]
      by (cases "snd (parse s [Key f] (fmlookup ob f))")
         (simp_all add: a object_data_def fmlookup_of_list map_filter_simps field_parse_def del: parse.simps)
  next
    case False
    then show ?thesis
      using IH
      by (cases "snd (parse s [Key f] (fmlookup ob f))")
         (simp_all add: a object_data_def fmlookup_of_list map_filter_simps field_parse_def del: parse.simps)
  qed
qed

lemma distinct_FIELDS: "distinct FIELDS"
  by (simp add: FIELDS_def)

lemma distinct_movie_keys: "distinct (map fst (movieSchema y))"
  by (simp add: movie_keys distinct_FIELDS)

lemma map_of_movie: "map_of (movieSchema y) k = Some s \<longleftrightarrow> (k, s) \<in> set (movieSchema y)"
  using distinct_movie_keys by (rule map_of_eq_Some_iff)

lemma movie_key_set: "fst ` set (movieSchema y) = set FIELDS"
proof -
  have "set (map fst (movieSchema y)) = set FIELDS" by (simp only: movie_keys)
  then show ?thesis by simp
qed

lemma movie_mem_key: "(k, s) \<in> set (movieSchema y) \<Longrightarrow> k \<in> set FIELDS"
  using movie_key_set [of y] by force

lemma map_of_movie_None: "map_of (movieSchema y) k = None \<longleftrightarrow> k \<notin> set FIELDS"
  by (simp add: map_of_eq_None_iff movie_key_set)

lemma map_of_partial: "map_of (partial sh) k = map_option ZOptional (map_of sh k)"
  by (induction sh) (auto simp: partial_def)

lemma lookup_spec_fields: "fmlookup (spec_fields ob) k = (if k \<in> set FIELDS then fmlookup ob k else None)"
  by (simp add: spec_fields_def)

lemma lookup_spec_defaulted:
  "fmlookup (spec_defaulted ob) k =
     (if k = ''rating'' \<and> fmlookup ob ''rating'' = None then Some (JNum 5) else fmlookup ob k)"
  by (auto simp: spec_defaulted_def split: option.splits)

lemma rating_FIELDS: "''rating'' \<in> set FIELDS"
  by (simp add: FIELDS_def)

lemma movie_data:
  assumes "spec_validateFull y ob"
  shows "object_data (movieSchema y) ob = spec_defaulted (spec_fields ob)"
proof (rule fmap_ext)
  fix k
  note [simp del] = parse.simps
  show "fmlookup (object_data (movieSchema y) ob) k = fmlookup (spec_defaulted (spec_fields ob)) k"
  proof (cases "map_of (movieSchema y) k")
    case None
    then have "k \<notin> set FIELDS" by (simp add: map_of_movie_None)
    with None rating_FIELDS show ?thesis
      by (auto simp: lookup_object_data [OF distinct_movie_keys] lookup_spec_defaulted lookup_spec_fields)
  next
    case (Some s)
    then have mem: "(k, s) \<in> set (movieSchema y)" by (simp add: map_of_movie)
    then have k: "k \<in> set FIELDS" by (rule movie_mem_key)
    with assms have ok: "spec_field_full y ob k" by (simp add: spec_validateFull_def list_all_iff)
    then have nil: "fst (parse s [Key k] (fmlookup ob k)) = []" by (simp add: movie_field [OF mem])
    show ?thesis
    proof (cases "fmlookup ob k")
      case (Some v)
      with nil have "snd (parse s [Key k] (fmlookup ob k)) = Some v" by (simp add: parse_value)
      with Some \<open>map_of (movieSchema y) k = Some s\<close> k show ?thesis
        by (auto simp: lookup_object_data [OF distinct_movie_keys] lookup_spec_defaulted lookup_spec_fields)
    next
      case None
      with ok have r: "k = ''rating''" by (simp add: spec_field_full_def)
      with mem have s: "s = ZDefault (ZNumber [CMin 0 True, CMax 10 True]) (JNum 5)"
        by (simp add: movie_mem)
      from nil None have "fst (parse (ZNumber [CMin 0 True, CMax 10 True]) [Key k] (Some (JNum 5))) = []"
        by (simp add: s parse.simps(5))
      then have "snd (parse s [Key k] (fmlookup ob k)) = Some (JNum 5)"
        by (simp add: s None parse.simps(5) parse_value)
      with None \<open>map_of (movieSchema y) k = Some s\<close> k r show ?thesis
        by (simp add: lookup_object_data [OF distinct_movie_keys] lookup_spec_defaulted lookup_spec_fields)
    qed
  qed
qed

lemma partial_data:
  assumes "spec_validatePartial y ob"
  shows "object_data (partial (movieSchema y)) ob = spec_fields ob"
proof (rule fmap_ext)
  fix k
  note [simp del] = parse.simps
  have d: "distinct (map fst (partial (movieSchema y)))"
    by (simp add: partial_keys distinct_movie_keys)
  show "fmlookup (object_data (partial (movieSchema y)) ob) k = fmlookup (spec_fields ob) k"
  proof (cases "map_of (movieSchema y) k")
    case None
    then have "k \<notin> set FIELDS" by (simp add: map_of_movie_None)
    with None show ?thesis
      by (simp add: lookup_object_data [OF d] map_of_partial lookup_spec_fields)
  next
    case (Some s)
    then have mem: "(k, s) \<in> set (movieSchema y)" by (simp add: map_of_movie)
    then have k: "k \<in> set FIELDS" by (rule movie_mem_key)
    with assms have ok: "spec_field_partial y ob k" by (simp add: spec_validatePartial_def list_all_iff)
    then have nil: "fst (parse (ZOptional s) [Key k] (fmlookup ob k)) = []"
      by (simp add: partial_field [OF mem])
    have "snd (parse (ZOptional s) [Key k] (fmlookup ob k)) = fmlookup ob k"
    proof (cases "fmlookup ob k")
      case None
      then show ?thesis by (simp add: parse.simps(6))
    next
      case (Some v)
      with nil have "fst (parse s [Key k] (Some v)) = []" by (simp add: parse.simps(6))
      then show ?thesis by (simp add: Some parse.simps(6) parse_value)
    qed
    with Some k show ?thesis
      by (simp add: lookup_object_data [OF d] map_of_partial lookup_spec_fields)
  qed
qed

lemma validateMovie_object:
  "validateMovie y (Some (JObj ob)) =
     (if spec_validateFull y ob then Success (spec_defaulted (spec_fields ob))
      else Failure (object_issues (movieSchema y) ob))"
  by (simp add: validateMovie_def safeParse_def Let_def movie_issues_Nil movie_data)

lemma validateMoviePartial_object:
  "validateMoviePartial y (Some (JObj ob)) =
     (if spec_validatePartial y ob then Success (spec_fields ob)
      else Failure (object_issues (partial (movieSchema y)) ob))"
  by (simp add: validateMoviePartial_def safeParse_def Let_def partial_issues_Nil partial_data)

lemma safeParse_other:
  "(\<And>ob. v \<noteq> Some (JObj ob)) \<Longrightarrow> safeParse sh v = Failure [Issue (invalid_type TObject) []]"
  by (cases v; cases "the v") (simp_all add: safeParse_def)

lemma text_violations: "fst (parse ZString [Key f] v) = spec_text_violations f v"
  by (cases v; cases "the v") simp_all

lemma year_violations:
  "fst (parse (ZNumber [CInt, CMin 1900 True, CMax (of_int y) True]) [Key ''year''] v) =
     spec_year_violations y v"
  by (cases v; cases "the v") (simp_all add: isInteger_iff)

lemma duration_violations:
  "fst (parse (ZNumber [CInt, CMin 0 False]) [Key ''duration''] v) = spec_duration_violations v"
  by (cases v; cases "the v") (simp_all add: isInteger_iff)

lemma rating_violations:
  "fst (parse (ZDefault (ZNumber [CMin 0 True, CMax 10 True]) (JNum 5)) [Key ''rating''] v) =
     spec_rating_violations v"
  by (cases v; cases "the v") simp_all

lemma tag_violations:
  "fst (parse (ZEnum GENRES) [Key ''genre'', Index i] (Some g)) = spec_tag_violations i g"
  by (cases g) simp_all

lemma tags_violations:
  "map fst (map (\<lambda>(i, x). parse (ZEnum GENRES) ([Key ''genre''] @ [Index i]) (Some x)) (enumerate 0 gs)) =
   map (\<lambda>i. spec_tag_violations i (gs ! i)) [0..<length gs]"
  by (rule nth_equalityI) (simp_all add: nth_enumerate_eq tag_violations del: parse.simps)

lemma genre_violations:
  "fst (parse (ZArray (ZEnum GENRES)) [Key ''genre''] v) = spec_genre_violations v"
proof (cases v)
  case None
  then show ?thesis by simp
next
  case (Some x)
  then show ?thesis
    using tags_violations by (cases x) (simp_all add: Let_def del: parse.simps(4))
qed

lemma movie_violations: "object_issues (movieSchema y) ob = spec_violations y ob"
  by (simp add: object_issues_def movieSchema_def field_parse_def spec_violations_def
      text_violations year_violations duration_violations rating_violations genre_violations
      del: parse.simps)

section \<open>The handlers: auxiliary facts\<close>

lemma respond_fresh:
  "sent r = None \<Longrightarrow>
   respond n c r ms =
     \<lparr>out_res = r\<lparr>statusCode := n, sent := Some \<lparr>status = n, headers = res_headers r, content = c\<rparr>\<rparr>,
      out_movies = ms, thrown = None\<rparr>"
  by (simp add: respond_def res_send_def res_status_def)

lemma respond_sent:
  "sent r = Some x \<Longrightarrow>
   respond n c r ms = \<lparr>out_res = r\<lparr>statusCode := n\<rparr>, out_movies = ms, thrown = Some ERR_HTTP_HEADERS_SENT\<rparr>"
  by (simp add: respond_def res_send_def res_status_def)

lemma out_movies_respond: "out_movies (respond n c r ms) = ms"
  by (simp add: respond_def split: sum.splits)

lemma findIndex_None: "findIndex f xs = None \<longleftrightarrow> \<not> list_ex f xs"
  by (induction xs) auto

lemma findIndex_Some:
  "findIndex f xs = Some i \<longleftrightarrow> i < length xs \<and> f (xs ! i) \<and> (\<forall>j < i. \<not> f (xs ! j))"
proof (induction xs arbitrary: i)
  case Nil
  then show ?case by simp
next
  case (Cons x xs)
  show ?case
  proof (cases "f x")
    case True
    then show ?thesis by (cases i) auto
  next
    case False
    show ?thesis
    proof (cases i)
      case 0
      with False show ?thesis by simp
    next
      case (Suc k)
      have "(\<forall>j < Suc k. \<not> f ((x # xs) ! j)) \<longleftrightarrow> (\<forall>j < k. \<not> f (xs ! j))"
        using False by (auto simp: less_Suc_eq_0_disj)
      with False Suc Cons.IH [of k] show ?thesis by auto
    qed
  qed
qed

lemma findIndex_split:
  assumes "findIndex f xs = Some i"
  shows "xs = take i xs @ xs ! i # drop (Suc i) xs \<and> f (xs ! i) \<and> \<not> list_ex f (take i xs)"
proof -
  from assms have i: "i < length xs" "f (xs ! i)" "\<forall>j < i. \<not> f (xs ! j)"
    by (simp_all add: findIndex_Some)
  from i(1) have "xs = take i xs @ xs ! i # drop (Suc i) xs" by (simp add: id_take_nth_drop)
  moreover from i(1,3) have "\<not> list_ex f (take i xs)"
    by (auto simp: list_ex_iff in_set_conv_nth)
  ultimately show ?thesis using i(2) by simp
qed

lemma findIndex_exists: "list_ex f xs \<Longrightarrow> \<exists>i. findIndex f xs = Some i"
  using findIndex_None [of f xs] by (cases "findIndex f xs") auto

lemma find_None: "\<not> list_ex f xs \<Longrightarrow> List.find f xs = None"
  by (simp add: find_None_iff list_ex_iff)

lemma find_snoc: "\<not> list_ex f xs \<Longrightarrow> f x \<Longrightarrow> List.find f (xs @ [x]) = Some x"
  by (induction xs) auto

lemma sent_res0: "sent res0 = None"
  by (simp add: res0_def)

lemma sent_cors: "sent (cors req r) = sent r"
  by (simp add: cors_def res_header_def split: option.splits)

lemma sent_cors_preflight: "sent (cors_preflight req r) = sent r"
  by (simp add: cors_preflight_def res_header_def split: option.splits)

lemma statusCode_cors: "statusCode (cors req r) = statusCode r"
  by (simp add: cors_def res_header_def split: option.splits)

lemma get_movie_absent:
  "\<not> list_ex (has_id (params_id req)) movies \<Longrightarrow>
   get_movie req movies = respond 400 (Html ''<h1>Movie not found</h1>'') res0 movies"
  by (simp add: get_movie_def find_None)

lemma delete_movie_absent:
  "\<not> list_ex (has_id (params_id req)) movies \<Longrightarrow>
   delete_movie req movies = respond 404 (JsonMessage ''Movie not found'') (cors req res0) movies"
  by (simp add: delete_movie_def Let_def findIndex_None [THEN iffD2])

lemma delete_movie_present:
  "findIndex (has_id (params_id req)) movies = Some i \<Longrightarrow>
   delete_movie req movies = respond 200 (JsonMessage ''Movie deleted'') (cors req res0) (splice1 i movies)"
  by (simp add: delete_movie_def Let_def statusCode_cors res0_def)

lemma patch_movie_Success:
  "validateMoviePartial y (body req) = Success d \<Longrightarrow>
   patch_movie y req movies =
     (case findIndex (has_id (params_id req)) movies of
        None \<Rightarrow> respond 404 (JsonMessage ''Movie not found'') res0 movies
      | Some i \<Rightarrow> respond 201 (JsonMovie (movies ! i ++\<^sub>f d)) res0 (movies[i := movies ! i ++\<^sub>f d]))"
  by (simp add: patch_movie_def Let_def split: option.splits)

lemma patch_movie_Failure:
  assumes "validateMoviePartial y (body req) = Failure es"
  shows "patch_movie y req movies =
     \<lparr>out_res = res0\<lparr>statusCode := if list_ex (has_id (params_id req)) movies then 201 else 404,
                     sent := Some \<lparr>status = 400, headers = [], content = JsonError es\<rparr>\<rparr>,
      out_movies = movies, thrown = Some ERR_HTTP_HEADERS_SENT\<rparr>"
proof (cases "findIndex (has_id (params_id req)) movies")
  case None
  then have "\<not> list_ex (has_id (params_id req)) movies" by (simp add: findIndex_None)
  with None assms show ?thesis
    by (simp add: patch_movie_def Let_def res_send_def res_status_def res0_def respond_sent)
next
  case (Some i)
  then have "list_ex (has_id (params_id req)) movies"
    using findIndex_None [of "has_id (params_id req)" movies] by simp
  with Some assms show ?thesis
    by (simp add: patch_movie_def Let_def res_send_def res_status_def res0_def respond_sent)
qed

lemma post_movies_Success:
  "validateMovie y (body req) = Success d \<Longrightarrow>
   post_movies y uuid req movies =
     respond 201 (JsonMovie (fmupd ''id'' (JStr uuid) fmempty ++\<^sub>f d)) res0
       (movies @ [fmupd ''id'' (JStr uuid) fmempty ++\<^sub>f d])"
  by (simp add: post_movies_def Let_def)

lemma post_movies_Failure:
  "validateMovie y (body req) = Failure es \<Longrightarrow>
   post_movies y uuid req movies =
     \<lparr>out_res = res0\<lparr>statusCode := 201,
                     sent := Some \<lparr>status = 400, headers = [], content = JsonError es\<rparr>\<rparr>,
      out_movies = movies @ [fmupd ''id'' (JStr uuid) fmempty], thrown = Some ERR_HTTP_HEADERS_SENT\<rparr>"
  by (simp add: post_movies_def Let_def res_send_def res_status_def res0_def respond_sent)

lemma rating11_partial:
  "validateMoviePartial y (Some (JObj (fmupd ''rating'' (JNum 11) fmempty))) =
     Failure [Issue too_big [Key ''rating'']]"
  by (simp add: validateMoviePartial_def safeParse_def object_issues_def field_parse_def
      partial_def movieSchema_def)

lemma empty_partial: "validateMoviePartial y (Some (JObj fmempty)) = Success fmempty"
  by (simp add: validateMoviePartial_def safeParse_def object_issues_def field_parse_def
      partial_def movieSchema_def object_data_def map_filter_simps)

lemma empty_full:
  "validateMovie y (Some (JObj fmempty)) =
     Failure [Issue (invalid_type TString) [Key ''title''],
              Issue (invalid_type TNumber) [Key ''year''],
              Issue (invalid_type TString) [Key ''director''],
              Issue (invalid_type TNumber) [Key ''duration''],
              Issue (invalid_type TArray) [Key ''genre'']]"
  by (simp add: validateMovie_def safeParse_def object_issues_def field_parse_def movieSchema_def)

lemma validateMovie_Success_iff:
  "validateMovie y object = Success d \<longleftrightarrow>
     (\<exists>ob. object = Some (JObj ob) \<and> spec_validateFull y ob \<and> d = spec_defaulted (spec_fields ob))"
proof (cases "\<exists>ob. object = Some (JObj ob)")
  case True
  then show ?thesis by (auto simp: validateMovie_object split: if_splits)
next
  case False
  then have "validateMovie y object = Failure [Issue (invalid_type TObject) []]"
    unfolding validateMovie_def by (intro safeParse_other) simp
  with False show ?thesis by auto
qed

lemma validateMoviePartial_Success_iff:
  "validateMoviePartial y object = Success d \<longleftrightarrow>
     (\<exists>ob. object = Some (JObj ob) \<and> spec_validatePartial y ob \<and> d = spec_fields ob)"
proof (cases "\<exists>ob. object = Some (JObj ob)")
  case True
  then show ?thesis by (auto simp: validateMoviePartial_object split: if_splits)
next
  case False
  then have "validateMoviePartial y object = Failure [Issue (invalid_type TObject) []]"
    unfolding validateMoviePartial_def by (intro safeParse_other) simp
  with False show ?thesis by auto
qed

lemma movie_field_unique: "(f, s) \<in> set (movieSchema y) \<Longrightarrow> (f, s') \<in> set (movieSchema y) \<Longrightarrow> s' = s"
  using distinct_movie_keys [of y] by (meson eq_key_imp_eq_value)

lemma full_issue_fields:
  assumes "f \<in> set FIELDS"
  shows "(\<exists>e \<in> set (object_issues (movieSchema y) ob). about f e) \<longleftrightarrow> \<not> spec_field_full y ob f"
proof -
  from assms obtain s where s: "(f, s) \<in> set (movieSchema y)"
    using movie_key_set [of y] by force
  have "(\<exists>s'. (f, s') \<in> set (movieSchema y) \<and> fst (parse s' [Key f] (fmlookup ob f)) \<noteq> []) \<longleftrightarrow>
        fst (parse s [Key f] (fmlookup ob f)) \<noteq> []"
    using s movie_field_unique [OF s] by blast
  then show ?thesis by (simp only: about_issue movie_field [OF s])
qed

lemma partial_issue_fields:
  assumes "f \<in> set FIELDS"
  shows "(\<exists>e \<in> set (object_issues (partial (movieSchema y)) ob). about f e) \<longleftrightarrow>
         \<not> spec_field_partial y ob f"
proof -
  from assms obtain s where s: "(f, s) \<in> set (movieSchema y)"
    using movie_key_set [of y] by force
  have "(\<exists>s'. (f, s') \<in> set (partial (movieSchema y)) \<and> fst (parse s' [Key f] (fmlookup ob f)) \<noteq> []) \<longleftrightarrow>
        fst (parse (ZOptional s) [Key f] (fmlookup ob f)) \<noteq> []"
    unfolding partial_mem using s movie_field_unique [OF s] by blast
  then show ?thesis by (simp only: about_issue partial_field [OF s])
qed

lemma ex2000:
  "spec_validateFull 2025 (fmap_of_list [(''title'', JStr ''X''), (''year'', JNum 2000),
      (''director'', JStr ''D''), (''duration'', JNum 90), (''genre'', JArr [JStr ''drama''])])"
  by (simp add: spec_validateFull_def FIELDS_def spec_field_full_def constraint_simps GENRES_def
      fmlookup_of_list)

lemma ex1899:
  "validateMovie 2025 (Some (JObj (fmap_of_list [(''title'', JStr ''X''), (''year'', JNum 1899),
      (''director'', JStr ''D''), (''duration'', JNum 90), (''genre'', JArr [JStr ''drama''])]))) =
   Failure [Issue too_small [Key ''year'']]"
  by (simp add: validateMovie_def safeParse_def object_issues_def field_parse_def movieSchema_def
      fmlookup_of_list GENRES_def isInteger_def)

lemma ex_many:
  "validateMovie 2025 (Some (JObj (fmap_of_list [(''title'', JNum 5), (''year'', JNum 1899),
      (''director'', JStr ''D''), (''duration'', JNum 0), (''genre'', JArr [JStr ''drama'', JStr ''x'']),
      (''rating'', JNum 11)]))) =
   Failure [Issue (invalid_type TString) [Key ''title''], Issue too_small [Key ''year''],
            Issue too_small [Key ''duration''], Issue invalid_enum_value [Key ''genre'', Index 1],
            Issue too_big [Key ''rating'']]"
  by (simp add: validateMovie_def safeParse_def object_issues_def field_parse_def movieSchema_def
      fmlookup_of_list GENRES_def isInteger_def)

lemma issue_at_key:
  assumes "distinct (map fst sh)" and "(f, s) \<in> set sh"
  shows "Issue c (Key f # r) \<in> set (object_issues sh ob) \<longleftrightarrow>
         Issue c (Key f # r) \<in> set (fst (parse s [Key f] (fmlookup ob f)))"
proof
  assume "Issue c (Key f # r) \<in> set (object_issues sh ob)"
  then obtain k s' where k: "(k, s') \<in> set sh"
      "Issue c (Key f # r) \<in> set (fst (parse s' [Key k] (fmlookup ob k)))"
    by (auto simp: object_issues_def field_parse_def simp del: parse.simps)
  from parse_prefix [OF k(2)] have "k = f" by simp
  with k(1) assms have "s' = s" by (meson eq_key_imp_eq_value)
  with k(2) \<open>k = f\<close> show "Issue c (Key f # r) \<in> set (fst (parse s [Key f] (fmlookup ob f)))"
    by simp
next
  assume "Issue c (Key f # r) \<in> set (fst (parse s [Key f] (fmlookup ob f)))"
  with assms(2) show "Issue c (Key f # r) \<in> set (object_issues sh ob)"
    by (force simp: object_issues_def field_parse_def simp del: parse.simps)
qed

lemma year_issues:
  assumes "fmlookup ob ''year'' = Some (JNum x)"
  shows "(Issue too_small [Key ''year''] \<in> set (object_issues (movieSchema y) ob) \<longleftrightarrow> x < 1900) \<and>
         (Issue too_big [Key ''year''] \<in> set (object_issues (movieSchema y) ob) \<longleftrightarrow> of_int y < x) \<and>
         (Issue (invalid_type TInteger) [Key ''year''] \<in> set (object_issues (movieSchema y) ob) \<longleftrightarrow> x \<notin> \<int>)"
proof -
  have m: "(''year'', ZNumber [CInt, CMin 1900 True, CMax (of_int y) True]) \<in> set (movieSchema y)"
    by (simp add: movie_mem)
  show ?thesis
    unfolding issue_at_key [OF distinct_movie_keys m]
    by (simp add: assms isInteger_iff)
qed

lemma rating_issues:
  assumes "fmlookup ob ''rating'' = Some (JNum x)"
  shows "(Issue too_small [Key ''rating''] \<in> set (object_issues (partial (movieSchema y)) ob) \<longleftrightarrow> x < 0) \<and>
         (Issue too_big [Key ''rating''] \<in> set (object_issues (partial (movieSchema y)) ob) \<longleftrightarrow> 10 < x)"
proof -
  have m: "(''rating'', ZOptional (ZDefault (ZNumber [CMin 0 True, CMax 10 True]) (JNum 5)))
             \<in> set (partial (movieSchema y))"
    by (simp add: partial_mem movie_mem)
  have d: "distinct (map fst (partial (movieSchema y)))"
    by (simp add: partial_keys distinct_movie_keys)
  show ?thesis
    unfolding issue_at_key [OF d m]
    by (simp add: assms)
qed

lemma splice1_split:
  assumes "findIndex f xs = Some i"
  shows "\<exists>ys m zs. xs = ys @ m # zs \<and> f m \<and> \<not> list_ex f ys \<and> splice1 i xs = ys @ zs"
proof -
  from findIndex_split [OF assms]
  have 1: "xs = take i xs @ xs ! i # drop (Suc i) xs" and 2: "f (xs ! i)"
    and 3: "\<not> list_ex f (take i xs)" by simp_all
  have "splice1 i xs = take i xs @ drop (Suc i) xs" by (simp add: splice1_def)
  with 1 2 3 show ?thesis by blast
qed

lemma unique_id_removed:
  assumes "distinct (map (\<lambda>m. fmlookup m ''id'') (ys @ m # zs))" and "has_id i m"
    and "\<not> list_ex (has_id i) ys"
  shows "\<not> list_ex (has_id i) (ys @ zs)"
proof
  assume "list_ex (has_id i) (ys @ zs)"
  with assms(3) obtain z where z: "z \<in> set zs" "has_id i z" by (auto simp: list_ex_iff)
  with assms(2) have "fmlookup z ''id'' = fmlookup m ''id''" by (simp add: has_id_def)
  with z(1) assms(1) show False by (metis (no_types, lifting) distinct.simps(2) distinct_append image_eqI list.set_map list.simps(9) map_append)
qed

lemma id_not_field: "''id'' \<notin> set FIELDS"
  by (simp add: FIELDS_def)

lemma spec_fields_id: "fmlookup (spec_fields ob) ''id'' = None"
  by (simp add: lookup_spec_fields id_not_field)

lemma spec_defaulted_id: "fmlookup (spec_defaulted (spec_fields ob)) ''id'' = None"
  by (simp add: lookup_spec_defaulted spec_fields_id)

lemma id_spread: "fmlookup d ''id'' = None \<Longrightarrow> fmupd ''id'' v fmempty ++\<^sub>f d = fmupd ''id'' v d"
  by (rule fmap_ext) (auto simp: fmlookup_dom_iff)

lemma lookup_merge:
  "fmlookup (old ++\<^sub>f spec_fields ob) k =
     (if k \<in> set FIELDS \<and> fmlookup ob k \<noteq> None then fmlookup ob k else fmlookup old k)"
  by (auto simp: fmlookup_dom_iff lookup_spec_fields)

lemma merge_nothing: "\<forall>f \<in> set FIELDS. fmlookup ob f = None \<Longrightarrow> old ++\<^sub>f spec_fields ob = old"
  by (rule fmap_ext, subst lookup_merge) auto

lemma res_headers_cors: "res_headers (cors req res0) = spec_authorize (origin req)"
  by (simp add: cors_def spec_authorize_def res_header_def res0_def split: option.splits)

lemma res_headers_cors_preflight:
  "res_headers (cors_preflight req res0) = spec_authorize_preflight (origin req)"
  by (auto simp: cors_preflight_def spec_authorize_preflight_def res_header_def res0_def
      ACCEPTED_ORIGINS_def split: option.splits)

lemma statusCode_cors_preflight: "statusCode (cors_preflight req res0) = 200"
  by (simp add: cors_preflight_def res_header_def res0_def split: option.splits)

lemma respond_headers:
  "sent r = None \<Longrightarrow> res_headers (out_res (respond n c r ms)) = res_headers r \<and>
     reply (respond n c r ms) = Some \<lparr>status = n, headers = res_headers r, content = c\<rparr> \<and>
     business (respond n c r ms) = (Some (n, c), ms, None)"
  by (simp add: respond_fresh reply_def business_def)

lemma get_movies_cases:
  "get_movies req movies = respond 200 (JsonMovies movies) (cors req res0) movies \<or>
   (\<exists>ms. filter_js movie_test movies = Inr ms \<and>
      get_movies req movies = respond 200 (JsonMovies ms) (cors req res0) movies) \<or>
   (\<exists>e. filter_js movie_test movies = Inl e \<and>
      get_movies req movies = \<lparr>out_res = cors req res0, out_movies = movies, thrown = Some e\<rparr>)"
  by (cases "filter_js movie_test movies") (simp_all add: get_movies_def Let_def)

lemma reply_record: "reply \<lparr>out_res = r, out_movies = ms, thrown = t\<rparr> = sent r"
  by (simp add: reply_def)

lemma get_movies_headers:
  "res_headers (out_res (get_movies req movies)) = spec_authorize (origin req) \<and>
   (\<forall>r. reply (get_movies req movies) = Some r \<longrightarrow> headers r = spec_authorize (origin req))"
  using get_movies_cases [of req movies]
  by (auto simp: respond_headers sent_cors sent_res0 res_headers_cors reply_record)

lemma business_thrown:
  "sent r = None \<Longrightarrow> business \<lparr>out_res = r, out_movies = ms, thrown = Some e\<rparr> = (None, ms, Some e)"
  by (simp add: business_def reply_def)

lemma get_movies_business_eq:
  "business (get_movies req movies) =
     (if query_genre req \<noteq> None \<and> query_genre req \<noteq> Some []
      then (case filter_js movie_test movies of
              Inl e \<Rightarrow> (None, movies, Some e)
            | Inr ms \<Rightarrow> (Some (200, JsonMovies ms), movies, None))
      else (Some (200, JsonMovies movies), movies, None))"
  by (cases "filter_js movie_test movies")
     (simp_all add: get_movies_def Let_def respond_headers business_thrown sent_cors sent_res0)

lemma get_movies_business:
  "business (get_movies (req\<lparr>origin := og\<rparr>) movies) = business (get_movies req movies)"
  by (simp only: get_movies_business_eq) simp

lemma delete_movie_gate:
  "res_headers (out_res (delete_movie req movies)) = spec_authorize (origin req) \<and>
   map_option headers (reply (delete_movie req movies)) = Some (spec_authorize (origin req)) \<and>
   business (delete_movie (req\<lparr>origin := og\<rparr>) movies) = business (delete_movie req movies)"
  by (cases "findIndex (has_id (params_id req)) movies")
     (simp_all add: delete_movie_def Let_def respond_headers sent_cors sent_res0 res_headers_cors
       statusCode_cors)

lemma options_movie_gate:
  "res_headers (out_res (options_movie req movies)) = spec_authorize_preflight (origin req) \<and>
   map_option (\<lambda>r. (status r, headers r)) (reply (options_movie req movies)) =
     Some (200, spec_authorize_preflight (origin req)) \<and>
   business (options_movie (req\<lparr>origin := og\<rparr>) movies) = business (options_movie req movies)"
  by (simp add: options_movie_def Let_def respond_headers sent_cors_preflight sent_res0
       res_headers_cors_preflight statusCode_cors_preflight)

lemma res_headers_res0: "res_headers res0 = []"
  by (simp add: res0_def)

lemma ungated_headers:
  "map_option headers (reply (get_movie req movies)) = Some []"
  "map_option headers (reply (post_movies y uuid req movies)) = Some []"
  "map_option headers (reply (patch_movie y req movies)) = Some []"
proof -
  show "map_option headers (reply (get_movie req movies)) = Some []"
    by (simp add: get_movie_def respond_headers sent_res0 res_headers_res0 split: option.splits)
  show "map_option headers (reply (post_movies y uuid req movies)) = Some []"
  proof (cases "validateMovie y (body req)")
    case (Success d)
    then show ?thesis
      by (simp add: post_movies_Success respond_headers sent_res0 res_headers_res0)
  next
    case (Failure es)
    then show ?thesis by (simp add: post_movies_Failure reply_def)
  qed
  show "map_option headers (reply (patch_movie y req movies)) = Some []"
  proof (cases "validateMoviePartial y (body req)")
    case (Success d)
    then show ?thesis
      by (simp add: patch_movie_Success respond_headers sent_res0 res_headers_res0
          split: option.splits)
  next
    case (Failure es)
    then show ?thesis by (simp add: patch_movie_Failure reply_def)
  qed
qed

section \<open>The validator\<close>

text \<open>
  C5 (amended): \<open>validateMovie\<close> succeeds exactly when the candidate is an object that
  supplies every field except \<open>rating\<close> (and \<open>id\<close>, which is no field of the schema)
  with the required type and range: \<open>title\<close> and \<open>director\<close> text; \<open>year\<close> an integer
  between 1900 and \<open>y\<close>, the calendar year in which the schema was built, that is, in which
  the module was loaded; \<open>duration\<close> a positive integer; \<open>genre\<close> a sequence, possibly
  empty, of elements of the closed enumeration; \<open>rating\<close>, if present, a number between 0
  and 10. On success the data are the candidate's fields of the schema, with \<open>rating\<close>
  set to 5 when it was omitted. On failure the error has an issue about a field exactly when
  that field offends, for every field and not only the first, and each issue names the
  violated constraint: the error is exactly the list \<open>spec_violations\<close> of the violated
  constraints of all fields (for \<open>year\<close>, say: not an integer, below the minimum, above
  the maximum).
\<close>

theorem validateMovie_contract:
  "(validateMovie y object = Success d \<longleftrightarrow>
      (\<exists>ob. object = Some (JObj ob) \<and> spec_validateFull y ob \<and> d = spec_defaulted (spec_fields ob))) \<and>
   (validateMovie y (Some (JObj ob)) = Failure es \<longrightarrow>
      (\<forall>f \<in> set FIELDS. (\<exists>e \<in> set es. about f e) \<longleftrightarrow> \<not> spec_field_full y ob f)) \<and>
   (validateMovie y (Some (JObj ob)) = Failure es \<and> fmlookup ob ''year'' = Some (JNum x) \<longrightarrow>
      (Issue too_small [Key ''year''] \<in> set es \<longleftrightarrow> x < 1900) \<and>
      (Issue too_big [Key ''year''] \<in> set es \<longleftrightarrow> of_int y < x) \<and>
      (Issue (invalid_type TInteger) [Key ''year''] \<in> set es \<longleftrightarrow> x \<notin> \<int>)) \<and>
   (validateMovie y (Some (JObj ob)) = Failure es \<longrightarrow> es = spec_violations y ob)"
proof (intro conjI)
  show "validateMovie y (Some (JObj ob)) = Failure es \<longrightarrow> es = spec_violations y ob"
    by (simp add: validateMovie_object movie_violations split: if_splits)
next
  show "validateMovie y object = Success d \<longleftrightarrow>
      (\<exists>ob. object = Some (JObj ob) \<and> spec_validateFull y ob \<and> d = spec_defaulted (spec_fields ob))"
    by (rule validateMovie_Success_iff)
next
  show "validateMovie y (Some (JObj ob)) = Failure es \<longrightarrow>
      (\<forall>f \<in> set FIELDS. (\<exists>e \<in> set es. about f e) \<longleftrightarrow> \<not> spec_field_full y ob f)"
  proof (intro impI ballI)
    fix f
    assume "validateMovie y (Some (JObj ob)) = Failure es" and f: "f \<in> set FIELDS"
    then have "es = object_issues (movieSchema y) ob"
      by (simp add: validateMovie_object split: if_splits)
    with full_issue_fields [OF f] show "(\<exists>e \<in> set es. about f e) \<longleftrightarrow> \<not> spec_field_full y ob f"
      by simp
  qed
next
  show "validateMovie y (Some (JObj ob)) = Failure es \<and> fmlookup ob ''year'' = Some (JNum x) \<longrightarrow>
      (Issue too_small [Key ''year''] \<in> set es \<longleftrightarrow> x < 1900) \<and>
      (Issue too_big [Key ''year''] \<in> set es \<longleftrightarrow> of_int y < x) \<and>
      (Issue (invalid_type TInteger) [Key ''year''] \<in> set es \<longleftrightarrow> x \<notin> \<int>)"
  proof (rule impI)
    assume a: "validateMovie y (Some (JObj ob)) = Failure es \<and> fmlookup ob ''year'' = Some (JNum x)"
    then have es: "es = object_issues (movieSchema y) ob"
      by (simp add: validateMovie_object split: if_splits)
    from a have "fmlookup ob ''year'' = Some (JNum x)" ..
    from year_issues [OF this, of y]
    show "(Issue too_small [Key ''year''] \<in> set es \<longleftrightarrow> x < 1900) \<and>
        (Issue too_big [Key ''year''] \<in> set es \<longleftrightarrow> of_int y < x) \<and>
        (Issue (invalid_type TInteger) [Key ''year''] \<in> set es \<longleftrightarrow> x \<notin> \<int>)"
      by (simp only: es)
  qed
qed

text \<open>The two examples of the specification, with the schema built in 2025, and a
  candidate with five offending fields, each of which is reported.\<close>

theorem validateMovie_contract_witness:
  "validateMovie 2025 (Some (JObj (fmap_of_list [(''title'', JStr ''X''), (''year'', JNum 2000),
      (''director'', JStr ''D''), (''duration'', JNum 90), (''genre'', JArr [JStr ''drama''])]))) =
     Success (fmap_of_list [(''title'', JStr ''X''), (''year'', JNum 2000),
      (''director'', JStr ''D''), (''duration'', JNum 90), (''genre'', JArr [JStr ''drama'']),
      (''rating'', JNum 5)]) \<and>
   validateMovie 2025 (Some (JObj (fmap_of_list [(''title'', JStr ''X''), (''year'', JNum 1899),
      (''director'', JStr ''D''), (''duration'', JNum 90), (''genre'', JArr [JStr ''drama''])]))) =
     Failure [Issue too_small [Key ''year'']] \<and>
   \<not> spec_field_full 2025 (fmap_of_list [(''title'', JStr ''X''), (''year'', JNum 1899),
      (''director'', JStr ''D''), (''duration'', JNum 90), (''genre'', JArr [JStr ''drama''])]) ''year'' \<and>
   validateMovie 2025 (Some (JObj (fmap_of_list [(''title'', JNum 5), (''year'', JNum 1899),
      (''director'', JStr ''D''), (''duration'', JNum 0), (''genre'', JArr [JStr ''drama'', JStr ''x'']),
      (''rating'', JNum 11)]))) =
   Failure [Issue (invalid_type TString) [Key ''title''], Issue too_small [Key ''year''],
            Issue too_small [Key ''duration''], Issue invalid_enum_value [Key ''genre'', Index 1],
            Issue too_big [Key ''rating'']] \<and>
   spec_violations 2025 (fmap_of_list [(''title'', JNum 5), (''year'', JNum 1899),
      (''director'', JStr ''D''), (''duration'', JNum 0), (''genre'', JArr [JStr ''drama'', JStr ''x'']),
      (''rating'', JNum 11)]) =
   [Issue (invalid_type TString) [Key ''title''], Issue too_small [Key ''year''],
    Issue too_small [Key ''duration''], Issue invalid_enum_value [Key ''genre'', Index 1],
    Issue too_big [Key ''rating'']]"
proof -
  let ?many = "fmap_of_list [(''title'', JNum 5), (''year'', JNum 1899),
      (''director'', JStr ''D''), (''duration'', JNum 0), (''genre'', JArr [JStr ''drama'', JStr ''x'']),
      (''rating'', JNum 11)]"
  have many: "spec_violations 2025 ?many =
     [Issue (invalid_type TString) [Key ''title''], Issue too_small [Key ''year''],
      Issue too_small [Key ''duration''], Issue invalid_enum_value [Key ''genre'', Index 1],
      Issue too_big [Key ''rating'']]"
    by (rule sym, rule validateMovie_contract
          [THEN conjunct2, THEN conjunct2, THEN conjunct2, rule_format, OF ex_many])
  let ?good = "fmap_of_list [(''title'', JStr ''X''), (''year'', JNum 2000),
      (''director'', JStr ''D''), (''duration'', JNum 90), (''genre'', JArr [JStr ''drama''])]"
  let ?bad = "fmap_of_list [(''title'', JStr ''X''), (''year'', JNum 1899),
      (''director'', JStr ''D''), (''duration'', JNum 90), (''genre'', JArr [JStr ''drama''])]"
  have g: "validateMovie 2025 (Some (JObj ?good)) = Success (spec_defaulted (spec_fields ?good))"
    using ex2000
    by (intro validateMovie_contract [THEN conjunct1, THEN iffD2] exI [of _ ?good] conjI refl)
  have e: "spec_defaulted (spec_fields ?good) =
     fmap_of_list [(''title'', JStr ''X''), (''year'', JNum 2000),
      (''director'', JStr ''D''), (''duration'', JNum 90), (''genre'', JArr [JStr ''drama'']),
      (''rating'', JNum 5)]"
    by (rule fmap_ext) (auto simp: lookup_spec_defaulted lookup_spec_fields fmlookup_of_list FIELDS_def)
  have b: "\<not> spec_field_full 2025 ?bad ''year''"
    using validateMovie_contract [THEN conjunct2, THEN conjunct1, rule_format, OF ex1899, of "''year''"]
    by (simp add: about_def FIELDS_def)
  from g have "validateMovie 2025 (Some (JObj ?good)) =
     Success (fmap_of_list [(''title'', JStr ''X''), (''year'', JNum 2000),
      (''director'', JStr ''D''), (''duration'', JNum 90), (''genre'', JArr [JStr ''drama'']),
      (''rating'', JNum 5)])"
    by (simp only: e)
  with ex1899 b ex_many many show ?thesis by (intro conjI)
qed

text \<open>
  C5 as it is stated bounds \<open>year\<close> by the calendar year at validation time. The schema
  is a constant of the module, and \<^verbatim>\<open>new Date().getFullYear()\<close> is evaluated when the
  module is loaded, not when \<^verbatim>\<open>validateMovie\<close> is called. For a process started in 2025
  that validates a candidate of the year 2026 in 2026, the claim's contract accepts the
  candidate and the code rejects it.
\<close>

theorem validateMovie_year_bound_counterexample:
  "spec_validateFull 2026 (fmap_of_list [(''title'', JStr ''X''), (''year'', JNum 2026),
      (''director'', JStr ''D''), (''duration'', JNum 90), (''genre'', JArr [JStr ''drama''])]) \<and>
   \<not> success (validateMovie 2025 (Some (JObj (fmap_of_list [(''title'', JStr ''X''), (''year'', JNum 2026),
      (''director'', JStr ''D''), (''duration'', JNum 90), (''genre'', JArr [JStr ''drama''])]))))"
  by (simp add: validateMovie_object spec_validateFull_def FIELDS_def spec_field_full_def
      constraint_simps GENRES_def fmlookup_of_list)

text \<open>
  C8: \<open>validateMoviePartial\<close> applies the per-field constraints of \<open>validateMovie\<close> and
  treats every field as optional. It succeeds exactly when the candidate is an object each
  of whose present fields conforms, and the data are then the candidate's fields of the
  schema (no default is filled in); on failure there is an issue about a field exactly when
  that field is present and offends, and for \<open>rating\<close> the issue names the violated
  bound. Every field of the partial schema is the field of the full schema made optional:
  absent, it is not checked and yields no issue; present, it is parsed as the full schema
  parses it. \<^verbatim>\<open>validatePartial({rating: 11})\<close> fails with the issue that \<open>rating\<close> is too
  big, and \<^verbatim>\<open>validatePartial({})\<close> succeeds.
\<close>

theorem validateMoviePartial_contract:
  "(validateMoviePartial y object = Success d \<longleftrightarrow>
      (\<exists>ob. object = Some (JObj ob) \<and> spec_validatePartial y ob \<and> d = spec_fields ob)) \<and>
   (validateMoviePartial y (Some (JObj ob)) = Failure es \<longrightarrow>
      (\<forall>f \<in> set FIELDS. (\<exists>e \<in> set es. about f e) \<longleftrightarrow> \<not> spec_field_partial y ob f)) \<and>
   (validateMoviePartial y (Some (JObj ob)) = Failure es \<and> fmlookup ob ''rating'' = Some (JNum x) \<longrightarrow>
      (Issue too_small [Key ''rating''] \<in> set es \<longleftrightarrow> x < 0) \<and>
      (Issue too_big [Key ''rating''] \<in> set es \<longleftrightarrow> 10 < x)) \<and>
   (\<forall>(f, s) \<in> set (movieSchema y).
      (f, ZOptional s) \<in> set (partial (movieSchema y)) \<and>
      field_parse ob (f, ZOptional s) =
        (case fmlookup ob f of None \<Rightarrow> ([], None) | Some v \<Rightarrow> field_parse ob (f, s))) \<and>
   validateMoviePartial y (Some (JObj (fmupd ''rating'' (JNum 11) fmempty))) =
     Failure [Issue too_big [Key ''rating'']] \<and>
   validateMoviePartial y (Some (JObj fmempty)) = Success fmempty"
proof (intro conjI)
  show "validateMoviePartial y object = Success d \<longleftrightarrow>
      (\<exists>ob. object = Some (JObj ob) \<and> spec_validatePartial y ob \<and> d = spec_fields ob)"
    by (rule validateMoviePartial_Success_iff)
next
  show "validateMoviePartial y (Some (JObj ob)) = Failure es \<longrightarrow>
      (\<forall>f \<in> set FIELDS. (\<exists>e \<in> set es. about f e) \<longleftrightarrow> \<not> spec_field_partial y ob f)"
  proof (intro impI ballI)
    fix f
    assume "validateMoviePartial y (Some (JObj ob)) = Failure es" and f: "f \<in> set FIELDS"
    then have "es = object_issues (partial (movieSchema y)) ob"
      by (simp add: validateMoviePartial_object split: if_splits)
    with partial_issue_fields [OF f]
    show "(\<exists>e \<in> set es. about f e) \<longleftrightarrow> \<not> spec_field_partial y ob f"
      by simp
  qed
next
  show "validateMoviePartial y (Some (JObj ob)) = Failure es \<and> fmlookup ob ''rating'' = Some (JNum x) \<longrightarrow>
      (Issue too_small [Key ''rating''] \<in> set es \<longleftrightarrow> x < 0) \<and>
      (Issue too_big [Key ''rating''] \<in> set es \<longleftrightarrow> 10 < x)"
  proof (rule impI)
    assume a: "validateMoviePartial y (Some (JObj ob)) = Failure es \<and> fmlookup ob ''rating'' = Some (JNum x)"
    then have es: "es = object_issues (partial (movieSchema y)) ob"
      by (simp add: validateMoviePartial_object split: if_splits)
    from a have "fmlookup ob ''rating'' = Some (JNum x)" ..
    from rating_issues [OF this, of y]
    show "(Issue too_small [Key ''rating''] \<in> set es \<longleftrightarrow> x < 0) \<and>
        (Issue too_big [Key ''rating''] \<in> set es \<longleftrightarrow> 10 < x)"
      by (simp only: es)
  qed
next
  show "\<forall>(f, s) \<in> set (movieSchema y).
      (f, ZOptional s) \<in> set (partial (movieSchema y)) \<and>
      field_parse ob (f, ZOptional s) =
        (case fmlookup ob f of None \<Rightarrow> ([], None) | Some v \<Rightarrow> field_parse ob (f, s))"
  proof (rule ballI)
    fix x
    assume x: "x \<in> set (movieSchema y)"
    obtain f s where fs: "x = (f, s)" by (cases x)
    note [simp del] = parse.simps(1-5)
    from x have "(f, ZOptional s) \<in> set (partial (movieSchema y))"
      by (simp add: partial_mem fs)
    moreover have "field_parse ob (f, ZOptional s) =
          (case fmlookup ob f of None \<Rightarrow> ([], None) | Some v \<Rightarrow> field_parse ob (f, s))"
      by (simp add: field_parse_def split: option.splits)
    ultimately show "case x of (f, s) \<Rightarrow> (f, ZOptional s) \<in> set (partial (movieSchema y)) \<and>
        field_parse ob (f, ZOptional s) =
          (case fmlookup ob f of None \<Rightarrow> ([], None) | Some v \<Rightarrow> field_parse ob (f, s))"
      by (simp add: fs)
  qed
next
  show "validateMoviePartial y (Some (JObj (fmupd ''rating'' (JNum 11) fmempty))) =
     Failure [Issue too_big [Key ''rating'']]"
    by (rule rating11_partial)
next
  show "validateMoviePartial y (Some (JObj fmempty)) = Success fmempty"
    by (rule empty_partial)
qed

theorem validateMoviePartial_contract_witness:
  "validateMoviePartial 2025 (Some (JObj (fmap_of_list [(''year'', JNum 1999), (''genre'', JArr [])]))) =
     Success (fmap_of_list [(''year'', JNum 1999), (''genre'', JArr [])]) \<and>
   \<not> spec_field_partial 2025 (fmupd ''rating'' (JNum 11) fmempty) ''rating'' \<and>
   spec_field_partial 2025 (fmupd ''rating'' (JNum 11) fmempty) ''title'' \<and>
   field_parse (fmupd ''rating'' (JNum 11) fmempty) (''title'', ZOptional ZString) = ([], None)"
proof -
  let ?ob = "fmap_of_list [(''year'', JNum 1999), (''genre'', JArr [])]"
  let ?r = "fmupd ''rating'' (JNum 11) fmempty"
  note c = validateMoviePartial_contract
  have v: "spec_validatePartial 2025 ?ob"
    by (simp add: spec_validatePartial_def FIELDS_def spec_field_partial_def constraint_simps
        fmlookup_of_list)
  have "validateMoviePartial 2025 (Some (JObj ?ob)) = Success (spec_fields ?ob)"
    using c [of 2025 "Some (JObj ?ob)" "spec_fields ?ob"] v by blast
  moreover have "spec_fields ?ob = ?ob"
    by (rule fmap_ext) (auto simp: lookup_spec_fields fmlookup_of_list FIELDS_def)
  moreover have "\<not> spec_field_partial 2025 ?r ''rating''" "spec_field_partial 2025 ?r ''title''"
    using c [of 2025 _ _ ?r "[Issue too_big [Key ''rating'']]"]
    by (simp_all add: about_def FIELDS_def)
  moreover have "field_parse ?r (''title'', ZOptional ZString) = ([], None)"
    using c [of 2025 _ _ ?r] by (simp add: movieSchema_def)
  ultimately show ?thesis by simp
qed

section \<open>Create\<close>

text \<open>
  C1, at the input where the code departs from it. The claim: a create request whose body
  fails \<open>validateFull\<close> leaves the collection unchanged, and every stored resource
  still satisfies the full schema. The handler has no \<^verbatim>\<open>return\<close> after its 400 response:
  for the empty object posted to an empty collection the client receives status 400, and
  the collection then holds the record \<^verbatim>\<open>{id: 'u1'}\<close>, which does not satisfy the full
  schema.
\<close>

theorem post_invalid_body_is_stored:
  "\<not> success (validateMovie 2025 (Some (JObj fmempty))) \<and>
   map_option status (reply (post_movies 2025 ''u1''
     \<lparr>origin = None, params_id = [], query_genre = None, body = Some (JObj fmempty)\<rparr> [])) = Some 400 \<and>
   out_movies (post_movies 2025 ''u1''
     \<lparr>origin = None, params_id = [], query_genre = None, body = Some (JObj fmempty)\<rparr> []) =
     [fmupd ''id'' (JStr ''u1'') fmempty] \<and>
   \<not> spec_validateFull 2025 (fmupd ''id'' (JStr ''u1'') fmempty)"
proof -
  let ?req = "\<lparr>origin = None, params_id = [], query_genre = None, body = Some (JObj fmempty)\<rparr>"
  have v: "validateMovie 2025 (body ?req) =
     Failure [Issue (invalid_type TString) [Key ''title''],
              Issue (invalid_type TNumber) [Key ''year''],
              Issue (invalid_type TString) [Key ''director''],
              Issue (invalid_type TNumber) [Key ''duration''],
              Issue (invalid_type TArray) [Key ''genre'']]"
    by (simp add: empty_full)
  have s: "\<not> spec_validateFull 2025 (fmupd ''id'' (JStr ''u1'') fmempty)"
    by (simp add: spec_validateFull_def FIELDS_def spec_field_full_def)
  show ?thesis
    using s by (simp add: post_movies_Failure [OF v] reply_def empty_full)
qed

text \<open>
  C3: for every candidate body that passes full validation, and a fresh identifier from
  \<^verbatim>\<open>crypto.randomUUID()\<close>, the create handler appends one resource at the end of the
  collection and answers 201 with it, without throwing; fetching by the returned id then
  yields that same resource. The resource is the submission's fields of the schema, plus
  the server-assigned \<open>id\<close>, plus \<open>rating = 5\<close> when \<open>rating\<close> was omitted: the
  last conjunct gives it key by key (a key of the body outside the schema, a
  client-supplied \<open>id\<close> included, is stripped by the validator and is not stored).
\<close>

theorem post_then_get:
  assumes "validateMovie y (body req) = Success d"
    and "\<not> list_ex (has_id uuid) movies"
  shows "\<exists>ob stored.
           body req = Some (JObj ob) \<and> spec_validateFull y ob \<and>
           stored = fmupd ''id'' (JStr uuid) (spec_defaulted (spec_fields ob)) \<and>
           out_movies (post_movies y uuid req movies) = movies @ [stored] \<and>
           reply (post_movies y uuid req movies) =
             Some \<lparr>status = 201, headers = [], content = JsonMovie stored\<rparr> \<and>
           thrown (post_movies y uuid req movies) = None \<and>
           reply (get_movie (req'\<lparr>params_id := uuid\<rparr>) (out_movies (post_movies y uuid req movies))) =
             Some \<lparr>status = 200, headers = [], content = JsonMovie stored\<rparr> \<and>
           (\<forall>k. fmlookup stored k =
              (if k = ''id'' then Some (JStr uuid)
               else if k = ''rating'' \<and> fmlookup ob ''rating'' = None then Some (JNum 5)
               else if k \<in> set FIELDS then fmlookup ob k
               else None))"
proof -
  from assms(1) obtain ob where ob: "body req = Some (JObj ob)" "spec_validateFull y ob"
      "d = spec_defaulted (spec_fields ob)"
    by (auto simp: validateMovie_Success_iff)
  define stored where "stored = fmupd ''id'' (JStr uuid) (spec_defaulted (spec_fields ob))"
  have new: "fmupd ''id'' (JStr uuid) fmempty ++\<^sub>f d = stored"
    by (simp add: ob(3) stored_def id_spread spec_defaulted_id)
  have post: "post_movies y uuid req movies = respond 201 (JsonMovie stored) res0 (movies @ [stored])"
    by (simp add: post_movies_Success [OF assms(1)] new)
  have "has_id uuid stored" by (simp add: has_id_def stored_def)
  with assms(2) have "List.find (has_id uuid) (movies @ [stored]) = Some stored"
    by (rule find_snoc)
  then have get: "get_movie (req'\<lparr>params_id := uuid\<rparr>) (movies @ [stored]) =
      respond 200 (JsonMovie stored) res0 (movies @ [stored])"
    by (simp add: get_movie_def)
  have look: "\<forall>k. fmlookup stored k =
              (if k = ''id'' then Some (JStr uuid)
               else if k = ''rating'' \<and> fmlookup ob ''rating'' = None then Some (JNum 5)
               else if k \<in> set FIELDS then fmlookup ob k
               else None)"
    using rating_FIELDS by (auto simp: stored_def lookup_spec_defaulted lookup_spec_fields)
  have "out_movies (post_movies y uuid req movies) = movies @ [stored]"
    "reply (post_movies y uuid req movies) =
             Some \<lparr>status = 201, headers = [], content = JsonMovie stored\<rparr>"
    "thrown (post_movies y uuid req movies) = None"
    "reply (get_movie (req'\<lparr>params_id := uuid\<rparr>) (out_movies (post_movies y uuid req movies))) =
             Some \<lparr>status = 200, headers = [], content = JsonMovie stored\<rparr>"
    by (simp_all add: post get respond_fresh sent_res0 reply_def res0_def)
  with ob(1,2) look stored_def show ?thesis by blast
qed

theorem post_then_get_witness:
  "reply (post_movies 2025 ''u1''
      \<lparr>origin = None, params_id = [], query_genre = None,
       body = Some (JObj (fmap_of_list [(''title'', JStr ''X''), (''year'', JNum 2000),
         (''director'', JStr ''D''), (''duration'', JNum 90), (''genre'', JArr [JStr ''drama''])]))\<rparr>
      [fmupd ''id'' (JStr ''a'') fmempty]) =
     Some \<lparr>status = 201, headers = [],
       content = JsonMovie (fmap_of_list [(''id'', JStr ''u1''), (''title'', JStr ''X''),
         (''year'', JNum 2000), (''director'', JStr ''D''), (''duration'', JNum 90),
         (''genre'', JArr [JStr ''drama'']), (''rating'', JNum 5)])\<rparr> \<and>
   reply (get_movie \<lparr>origin = None, params_id = ''u1'', query_genre = None, body = None\<rparr>
     (out_movies (post_movies 2025 ''u1''
      \<lparr>origin = None, params_id = [], query_genre = None,
       body = Some (JObj (fmap_of_list [(''title'', JStr ''X''), (''year'', JNum 2000),
         (''director'', JStr ''D''), (''duration'', JNum 90), (''genre'', JArr [JStr ''drama''])]))\<rparr>
      [fmupd ''id'' (JStr ''a'') fmempty]))) =
     Some \<lparr>status = 200, headers = [],
       content = JsonMovie (fmap_of_list [(''id'', JStr ''u1''), (''title'', JStr ''X''),
         (''year'', JNum 2000), (''director'', JStr ''D''), (''duration'', JNum 90),
         (''genre'', JArr [JStr ''drama'']), (''rating'', JNum 5)])\<rparr> \<and>
   out_movies (post_movies 2025 ''u1''
      \<lparr>origin = None, params_id = [], query_genre = None,
       body = Some (JObj (fmap_of_list [(''title'', JStr ''X''), (''year'', JNum 2000),
         (''director'', JStr ''D''), (''duration'', JNum 90), (''genre'', JArr [JStr ''drama''])]))\<rparr>
      [fmupd ''id'' (JStr ''a'') fmempty]) =
     [fmupd ''id'' (JStr ''a'') fmempty,
      fmap_of_list [(''id'', JStr ''u1''), (''title'', JStr ''X''),
         (''year'', JNum 2000), (''director'', JStr ''D''), (''duration'', JNum 90),
         (''genre'', JArr [JStr ''drama'']), (''rating'', JNum 5)]]"
proof -
  let ?good = "fmap_of_list [(''title'', JStr ''X''), (''year'', JNum 2000),
         (''director'', JStr ''D''), (''duration'', JNum 90), (''genre'', JArr [JStr ''drama''])]"
  let ?req = "\<lparr>origin = None, params_id = [], query_genre = None, body = Some (JObj ?good)\<rparr>"
  let ?get = "\<lparr>origin = None, params_id = [], query_genre = None, body = None\<rparr>"
  let ?ms = "[fmupd ''id'' (JStr ''a'') fmempty]"
  have v: "validateMovie 2025 (body ?req) = Success (spec_defaulted (spec_fields ?good))"
    using ex2000 by (simp add: validateMovie_object)
  have f: "\<not> list_ex (has_id ''u1'') ?ms"
    by (simp add: has_id_def)
  have e: "fmupd ''id'' (JStr ''u1'') (spec_defaulted (spec_fields ?good)) =
     fmap_of_list [(''id'', JStr ''u1''), (''title'', JStr ''X''),
         (''year'', JNum 2000), (''director'', JStr ''D''), (''duration'', JNum 90),
         (''genre'', JArr [JStr ''drama'']), (''rating'', JNum 5)]"
    by (rule fmap_ext) (auto simp: lookup_spec_defaulted lookup_spec_fields fmlookup_of_list FIELDS_def)
  from post_then_get [OF v f, of ?get] obtain ob stored where
    o: "body ?req = Some (JObj ob)"
       "stored = fmupd ''id'' (JStr ''u1'') (spec_defaulted (spec_fields ob))"
       "out_movies (post_movies 2025 ''u1'' ?req ?ms) = ?ms @ [stored]"
       "reply (post_movies 2025 ''u1'' ?req ?ms) =
          Some \<lparr>status = 201, headers = [], content = JsonMovie stored\<rparr>"
       "reply (get_movie (?get\<lparr>params_id := ''u1''\<rparr>) (out_movies (post_movies 2025 ''u1'' ?req ?ms))) =
          Some \<lparr>status = 200, headers = [], content = JsonMovie stored\<rparr>"
    by blast
  from o(1) have "ob = ?good" by (simp del: fmap_of_list_simps)
  with o(2) e have "stored = fmap_of_list [(''id'', JStr ''u1''), (''title'', JStr ''X''),
         (''year'', JNum 2000), (''director'', JStr ''D''), (''duration'', JNum 90),
         (''genre'', JArr [JStr ''drama'']), (''rating'', JNum 5)]"
    by (simp only:)
  with o(3-5) show ?thesis by (simp del: fmap_of_list_simps)
qed

section \<open>Read\<close>

text \<open>
  C2, at an input where the code departs from it. The claim: listing by genre returns
  exactly the resources whose \<open>genre\<close> sequence contains a case-insensitive match of
  the query tag. The filter compares each stored tag with itself, not with the query: for
  the query \<^verbatim>\<open>?genre=action\<close> and a collection holding one movie of genre
  \<^verbatim>\<open>["drama"]\<close>, the handler returns that movie, where the operation the
  specification describes returns nothing.
\<close>

theorem list_by_genre_ignores_tag:
  "reply (get_movies \<lparr>origin = None, params_id = [], query_genre = Some ''action'', body = None\<rparr>
      [fmap_of_list [(''id'', JStr ''a''), (''genre'', JArr [JStr ''drama''])]]) =
     Some \<lparr>status = 200, headers = [],
            content = JsonMovies [fmap_of_list [(''id'', JStr ''a''), (''genre'', JArr [JStr ''drama''])]]\<rparr> \<and>
   spec_listByGenre ''action'' [fmap_of_list [(''id'', JStr ''a''), (''genre'', JArr [JStr ''drama''])]] = []"
  by (simp add: get_movies_def Let_def movie_test_def genre_test_def respond_headers sent_cors sent_res0
      cors_def res_headers_res0 spec_listByGenre_def toLowerCase_def)

text \<open>
  C4 (amended): for every id that is not in the store, \<^verbatim>\<open>GET /movies/:id\<close> answers
  400 with the not-found page; \<^verbatim>\<open>PATCH\<close> with a body that passes \<open>validatePartial\<close>
  and \<^verbatim>\<open>DELETE\<close> answer 404 with the message \<^verbatim>\<open>Movie not found\<close>; \<^verbatim>\<open>PATCH\<close>
  with a body that fails \<open>validatePartial\<close> answers 400 with the validation errors. In
  every case the collection is left as it was.
\<close>

theorem absent_id_responses:
  assumes "\<not> list_ex (has_id (params_id req)) movies"
  shows "reply (get_movie req movies) =
           Some \<lparr>status = 400, headers = [], content = Html ''<h1>Movie not found</h1>''\<rparr> \<and>
         out_movies (get_movie req movies) = movies \<and>
         (success (validateMoviePartial y (body req)) \<longrightarrow>
            reply (patch_movie y req movies) =
              Some \<lparr>status = 404, headers = [], content = JsonMessage ''Movie not found''\<rparr>) \<and>
         (\<forall>es. validateMoviePartial y (body req) = Failure es \<longrightarrow>
            reply (patch_movie y req movies) =
              Some \<lparr>status = 400, headers = [], content = JsonError es\<rparr>) \<and>
         out_movies (patch_movie y req movies) = movies \<and>
         map_option (\<lambda>r. (status r, content r)) (reply (delete_movie req movies)) =
           Some (404, JsonMessage ''Movie not found'') \<and>
         out_movies (delete_movie req movies) = movies"
proof -
  from assms have n: "findIndex (has_id (params_id req)) movies = None"
    by (simp add: findIndex_None)
  have g: "reply (get_movie req movies) =
           Some \<lparr>status = 400, headers = [], content = Html ''<h1>Movie not found</h1>''\<rparr>"
      "out_movies (get_movie req movies) = movies"
    by (simp_all add: get_movie_absent [OF assms] respond_fresh sent_res0 reply_def res0_def)
  have d: "map_option (\<lambda>r. (status r, content r)) (reply (delete_movie req movies)) =
           Some (404, JsonMessage ''Movie not found'')"
      "out_movies (delete_movie req movies) = movies"
    by (simp_all add: delete_movie_absent [OF assms] respond_fresh sent_cors sent_res0 reply_def)
  have p: "out_movies (patch_movie y req movies) = movies"
    "success (validateMoviePartial y (body req)) \<longrightarrow>
            reply (patch_movie y req movies) =
              Some \<lparr>status = 404, headers = [], content = JsonMessage ''Movie not found''\<rparr>"
    "\<forall>es. validateMoviePartial y (body req) = Failure es \<longrightarrow>
            reply (patch_movie y req movies) =
              Some \<lparr>status = 400, headers = [], content = JsonError es\<rparr>"
    by (cases "validateMoviePartial y (body req)";
        simp add: patch_movie_Success patch_movie_Failure n respond_fresh sent_res0 reply_def res0_def)+
  from g d p show ?thesis by simp
qed

theorem absent_id_responses_witness:
  "\<not> list_ex (has_id ''nope'') [fmupd ''id'' (JStr ''a'') fmempty] \<and>
   success (validateMoviePartial 2025 (Some (JObj fmempty))) \<and>
   reply (get_movie \<lparr>origin = None, params_id = ''nope'', query_genre = None, body = Some (JObj fmempty)\<rparr>
     [fmupd ''id'' (JStr ''a'') fmempty]) =
     Some \<lparr>status = 400, headers = [], content = Html ''<h1>Movie not found</h1>''\<rparr> \<and>
   reply (patch_movie 2025 \<lparr>origin = None, params_id = ''nope'', query_genre = None, body = Some (JObj fmempty)\<rparr>
     [fmupd ''id'' (JStr ''a'') fmempty]) =
     Some \<lparr>status = 404, headers = [], content = JsonMessage ''Movie not found''\<rparr> \<and>
   out_movies (patch_movie 2025 \<lparr>origin = None, params_id = ''nope'', query_genre = None, body = Some (JObj fmempty)\<rparr>
     [fmupd ''id'' (JStr ''a'') fmempty]) = [fmupd ''id'' (JStr ''a'') fmempty] \<and>
   map_option (\<lambda>r. (status r, content r))
     (reply (delete_movie \<lparr>origin = None, params_id = ''nope'', query_genre = None, body = Some (JObj fmempty)\<rparr>
     [fmupd ''id'' (JStr ''a'') fmempty])) = Some (404, JsonMessage ''Movie not found'') \<and>
   out_movies (delete_movie \<lparr>origin = None, params_id = ''nope'', query_genre = None, body = Some (JObj fmempty)\<rparr>
     [fmupd ''id'' (JStr ''a'') fmempty]) = [fmupd ''id'' (JStr ''a'') fmempty]"
proof -
  let ?req = "\<lparr>origin = None, params_id = ''nope'', query_genre = None, body = Some (JObj fmempty)\<rparr>"
  have a: "\<not> list_ex (has_id (params_id ?req)) [fmupd ''id'' (JStr ''a'') fmempty]"
    by (simp add: has_id_def)
  have s: "success (validateMoviePartial 2025 (body ?req))"
    by (simp add: empty_partial)
  from absent_id_responses [OF a, of 2025] a s show ?thesis by simp
qed

text \<open>
  C4 as it is stated gives every \<^verbatim>\<open>PATCH\<close> on an absent id the status 404. The handler
  validates the body before it looks the id up: for the body \<^verbatim>\<open>{rating: 11}\<close> and an id
  that is not in the store, the client receives 400 with the validation error.
\<close>

theorem patch_absent_id_counterexample:
  "\<not> list_ex (has_id ''nope'') [fmupd ''id'' (JStr ''a'') fmempty] \<and>
   reply (patch_movie 2025
     \<lparr>origin = None, params_id = ''nope'', query_genre = None,
      body = Some (JObj (fmupd ''rating'' (JNum 11) fmempty))\<rparr>
     [fmupd ''id'' (JStr ''a'') fmempty]) =
     Some \<lparr>status = 400, headers = [], content = JsonError [Issue too_big [Key ''rating'']]\<rparr>"
proof -
  let ?req = "\<lparr>origin = None, params_id = ''nope'', query_genre = None,
      body = Some (JObj (fmupd ''rating'' (JNum 11) fmempty))\<rparr>"
  have v: "validateMoviePartial 2025 (body ?req) = Failure [Issue too_big [Key ''rating'']]"
    by (simp add: rating11_partial)
  show ?thesis
    by (simp add: patch_movie_Failure [OF v] reply_def has_id_def)
qed

section \<open>Update\<close>

text \<open>
  C6: for every existing id and every body that passes \<open>validatePartial\<close>, the update
  handler replaces the first resource with that id by its shallow merge with the validated
  partial and answers 201 with the merged resource: each field of the schema that the body
  provides takes the body's value, every other key keeps its prior value, and \<open>id\<close>
  in particular is not overwritten by the client (the validator strips it). With no field
  of the schema in the body, the collection is unchanged and the answer is still 201, with
  the unchanged resource.
\<close>

theorem patch_shallow_merge:
  assumes "validateMoviePartial y (body req) = Success d"
    and "list_ex (has_id (params_id req)) movies"
  shows "\<exists>ob i.
           body req = Some (JObj ob) \<and> spec_validatePartial y ob \<and> d = spec_fields ob \<and>
           findIndex (has_id (params_id req)) movies = Some i \<and>
           i < length movies \<and> has_id (params_id req) (movies ! i) \<and>
           out_movies (patch_movie y req movies) = movies[i := movies ! i ++\<^sub>f d] \<and>
           reply (patch_movie y req movies) =
             Some \<lparr>status = 201, headers = [], content = JsonMovie (movies ! i ++\<^sub>f d)\<rparr> \<and>
           thrown (patch_movie y req movies) = None \<and>
           (\<forall>k. fmlookup (movies ! i ++\<^sub>f d) k =
              (if k \<in> set FIELDS \<and> fmlookup ob k \<noteq> None then fmlookup ob k
               else fmlookup (movies ! i) k)) \<and>
           fmlookup (movies ! i ++\<^sub>f d) ''id'' = Some (JStr (params_id req)) \<and>
           ((\<forall>f \<in> set FIELDS. fmlookup ob f = None) \<longrightarrow>
              out_movies (patch_movie y req movies) = movies \<and>
              reply (patch_movie y req movies) =
                Some \<lparr>status = 201, headers = [], content = JsonMovie (movies ! i)\<rparr>)"
proof -
  from assms(1) obtain ob where ob: "body req = Some (JObj ob)" "spec_validatePartial y ob"
      "d = spec_fields ob"
    by (auto simp: validateMoviePartial_Success_iff)
  from findIndex_exists [OF assms(2)] obtain i
    where i: "findIndex (has_id (params_id req)) movies = Some i" ..
  then have i': "i < length movies" "has_id (params_id req) (movies ! i)"
    by (simp_all add: findIndex_Some)
  have patch: "patch_movie y req movies =
      respond 201 (JsonMovie (movies ! i ++\<^sub>f d)) res0 (movies[i := movies ! i ++\<^sub>f d])"
    by (simp add: patch_movie_Success [OF assms(1)] i)
  have r: "out_movies (patch_movie y req movies) = movies[i := movies ! i ++\<^sub>f d]"
    "reply (patch_movie y req movies) =
             Some \<lparr>status = 201, headers = [], content = JsonMovie (movies ! i ++\<^sub>f d)\<rparr>"
    "thrown (patch_movie y req movies) = None"
    by (simp_all add: patch respond_fresh sent_res0 reply_def res0_def)
  have look: "\<forall>k. fmlookup (movies ! i ++\<^sub>f d) k =
              (if k \<in> set FIELDS \<and> fmlookup ob k \<noteq> None then fmlookup ob k
               else fmlookup (movies ! i) k)"
    unfolding ob(3) by (rule allI) (rule lookup_merge)
  have id: "fmlookup (movies ! i ++\<^sub>f d) ''id'' = Some (JStr (params_id req))"
    using i'(2) look id_not_field by (simp add: has_id_def)
  have empty: "(\<forall>f \<in> set FIELDS. fmlookup ob f = None) \<longrightarrow>
              out_movies (patch_movie y req movies) = movies \<and>
              reply (patch_movie y req movies) =
                Some \<lparr>status = 201, headers = [], content = JsonMovie (movies ! i)\<rparr>"
    using r by (simp add: ob(3) merge_nothing)
  from ob i i' r look id empty show ?thesis by blast
qed

theorem patch_shallow_merge_witness:
  "out_movies (patch_movie 2025
      \<lparr>origin = None, params_id = ''a'', query_genre = None,
       body = Some (JObj (fmap_of_list [(''rating'', JNum 9), (''id'', JStr ''z'')]))\<rparr>
      [fmap_of_list [(''id'', JStr ''a''), (''title'', JStr ''T''), (''rating'', JNum 5)]]) =
     [fmap_of_list [(''id'', JStr ''a''), (''title'', JStr ''T''), (''rating'', JNum 9)]] \<and>
   reply (patch_movie 2025
      \<lparr>origin = None, params_id = ''a'', query_genre = None, body = Some (JObj fmempty)\<rparr>
      [fmap_of_list [(''id'', JStr ''a''), (''title'', JStr ''T''), (''rating'', JNum 5)]]) =
     Some \<lparr>status = 201, headers = [],
       content = JsonMovie (fmap_of_list [(''id'', JStr ''a''), (''title'', JStr ''T''), (''rating'', JNum 5)])\<rparr> \<and>
   out_movies (patch_movie 2025
      \<lparr>origin = None, params_id = ''a'', query_genre = None, body = Some (JObj fmempty)\<rparr>
      [fmap_of_list [(''id'', JStr ''a''), (''title'', JStr ''T''), (''rating'', JNum 5)]]) =
     [fmap_of_list [(''id'', JStr ''a''), (''title'', JStr ''T''), (''rating'', JNum 5)]]"
proof -
  let ?old = "fmap_of_list [(''id'', JStr ''a''), (''title'', JStr ''T''), (''rating'', JNum 5)]"
  let ?new = "fmap_of_list [(''id'', JStr ''a''), (''title'', JStr ''T''), (''rating'', JNum 9)]"
  let ?b = "fmap_of_list [(''rating'', JNum 9), (''id'', JStr ''z'')]"
  let ?req = "\<lparr>origin = None, params_id = ''a'', query_genre = None, body = Some (JObj ?b)\<rparr>"
  let ?reqE = "\<lparr>origin = None, params_id = ''a'', query_genre = None, body = Some (JObj fmempty)\<rparr>"
  have p: "list_ex (has_id (params_id ?req)) [?old]" "list_ex (has_id (params_id ?reqE)) [?old]"
    by (simp_all add: has_id_def)
  have i: "findIndex (has_id ''a'') [?old] = Some 0"
    by (simp add: has_id_def)
  have "spec_validatePartial 2025 ?b"
    by (simp add: spec_validatePartial_def FIELDS_def spec_field_partial_def constraint_simps)
  then have v: "validateMoviePartial 2025 (body ?req) = Success (spec_fields ?b)"
    by (simp add: validateMoviePartial_object del: fmap_of_list_simps)
  have v0: "validateMoviePartial 2025 (body ?reqE) = Success fmempty"
    by (simp add: empty_partial)
  have m: "?old ++\<^sub>f spec_fields ?b = ?new"
    by (rule fmap_ext, subst lookup_merge) (auto simp: FIELDS_def)
  from patch_shallow_merge [OF v p(1)] i
  have "out_movies (patch_movie 2025 ?req [?old]) = [?old][0 := [?old] ! 0 ++\<^sub>f spec_fields ?b]"
    by (auto simp del: fmap_of_list_simps)
  then have 1: "out_movies (patch_movie 2025 ?req [?old]) = [?new]"
    by (simp add: m del: fmap_of_list_simps)
  from patch_shallow_merge [OF v0 p(2)] i
  have "reply (patch_movie 2025 ?reqE [?old]) =
      Some \<lparr>status = 201, headers = [], content = JsonMovie ([?old] ! 0 ++\<^sub>f fmempty)\<rparr>"
    "out_movies (patch_movie 2025 ?reqE [?old]) = [?old][0 := [?old] ! 0 ++\<^sub>f fmempty]"
    by (auto simp del: fmap_of_list_simps)
  then have 2: "reply (patch_movie 2025 ?reqE [?old]) =
      Some \<lparr>status = 201, headers = [], content = JsonMovie ?old\<rparr>"
    "out_movies (patch_movie 2025 ?reqE [?old]) = [?old]"
    by (simp_all del: fmap_of_list_simps)
  from 1 2 show ?thesis by (simp only:) 
qed

text \<open>
  C10: for every PATCH request on an existing id whose body fails \<open>validatePartial\<close>,
  the stored resource at that id is unchanged when the handler is done. The handler goes
  on after its 400 response, but \<^verbatim>\<open>result.data\<close> is \<^verbatim>\<open>undefined\<close> and the merge adds
  nothing: the whole collection is what it was, the client has the 400 response with the
  validation errors, and the handler's second response throws.
\<close>

theorem patch_invalid_body_keeps_resource:
  assumes "validateMoviePartial y (body req) = Failure es"
    and "list_ex (has_id (params_id req)) movies"
  shows "out_movies (patch_movie y req movies) = movies \<and>
         List.find (has_id (params_id req)) (out_movies (patch_movie y req movies)) =
           List.find (has_id (params_id req)) movies \<and>
         reply (patch_movie y req movies) = Some \<lparr>status = 400, headers = [], content = JsonError es\<rparr> \<and>
         thrown (patch_movie y req movies) = Some ERR_HTTP_HEADERS_SENT"
  by (simp add: patch_movie_Failure [OF assms(1)] reply_def)

theorem patch_invalid_body_keeps_resource_witness:
  "list_ex (has_id ''a'') [fmupd ''id'' (JStr ''a'') fmempty] \<and>
   out_movies (patch_movie 2025
     \<lparr>origin = None, params_id = ''a'', query_genre = None,
      body = Some (JObj (fmupd ''rating'' (JNum 11) fmempty))\<rparr>
     [fmupd ''id'' (JStr ''a'') fmempty]) = [fmupd ''id'' (JStr ''a'') fmempty] \<and>
   reply (patch_movie 2025
     \<lparr>origin = None, params_id = ''a'', query_genre = None,
      body = Some (JObj (fmupd ''rating'' (JNum 11) fmempty))\<rparr>
     [fmupd ''id'' (JStr ''a'') fmempty]) =
     Some \<lparr>status = 400, headers = [], content = JsonError [Issue too_big [Key ''rating'']]\<rparr>"
proof -
  let ?req = "\<lparr>origin = None, params_id = ''a'', query_genre = None,
      body = Some (JObj (fmupd ''rating'' (JNum 11) fmempty))\<rparr>"
  have v: "validateMoviePartial 2025 (body ?req) = Failure [Issue too_big [Key ''rating'']]"
    by (simp add: rating11_partial)
  have p: "list_ex (has_id (params_id ?req)) [fmupd ''id'' (JStr ''a'') fmempty]"
    by (simp add: has_id_def)
  from patch_invalid_body_keeps_resource [OF v p] p show ?thesis by simp
qed

section \<open>Delete\<close>

text \<open>
  C7: for every id present in the store, the delete handler removes exactly one resource,
  the first with that id, and leaves all others in their order; the length of the
  collection decreases by one; the answer is 200 with the message \<^verbatim>\<open>Movie deleted\<close>.
  Where ids are unique in the collection, no resource with that id remains.
\<close>

theorem delete_removes_one:
  assumes "list_ex (has_id (params_id req)) movies"
  shows "\<exists>before movie after.
           movies = before @ movie # after \<and>
           has_id (params_id req) movie \<and>
           \<not> list_ex (has_id (params_id req)) before \<and>
           out_movies (delete_movie req movies) = before @ after \<and>
           length (out_movies (delete_movie req movies)) + 1 = length movies \<and>
           map_option (\<lambda>r. (status r, content r)) (reply (delete_movie req movies)) =
             Some (200, JsonMessage ''Movie deleted'') \<and>
           thrown (delete_movie req movies) = None \<and>
           (distinct (map (\<lambda>m. fmlookup m ''id'') movies) \<longrightarrow>
              \<not> list_ex (has_id (params_id req)) (out_movies (delete_movie req movies)))"
proof -
  from findIndex_exists [OF assms] obtain i
    where i: "findIndex (has_id (params_id req)) movies = Some i" ..
  from splice1_split [OF i] obtain ys m zs
    where s: "movies = ys @ m # zs" "has_id (params_id req) m"
      "\<not> list_ex (has_id (params_id req)) ys" "splice1 i movies = ys @ zs"
    by blast
  have "delete_movie req movies =
      respond 200 (JsonMessage ''Movie deleted'') (cors req res0) (ys @ zs)"
    using delete_movie_present [OF i] s(4) by simp
  then have d: "out_movies (delete_movie req movies) = ys @ zs"
    "map_option (\<lambda>r. (status r, content r)) (reply (delete_movie req movies)) =
             Some (200, JsonMessage ''Movie deleted'')"
    "thrown (delete_movie req movies) = None"
    by (simp_all add: respond_fresh sent_cors sent_res0 reply_def)
  have "length (ys @ zs) + 1 = length movies"
    using arg_cong [OF s(1), of length] by simp
  moreover have "distinct (map (\<lambda>m. fmlookup m ''id'') movies) \<longrightarrow>
      \<not> list_ex (has_id (params_id req)) (out_movies (delete_movie req movies))"
    unfolding d(1) using unique_id_removed [OF _ s(2,3), of zs] s(1) by blast
  ultimately show ?thesis using s d by (metis (no_types, lifting))
qed

theorem delete_removes_one_witness:
  "list_ex (has_id ''b'')
     [fmupd ''id'' (JStr ''a'') fmempty, fmupd ''id'' (JStr ''b'') fmempty, fmupd ''id'' (JStr ''c'') fmempty] \<and>
   out_movies (delete_movie \<lparr>origin = None, params_id = ''b'', query_genre = None, body = None\<rparr>
     [fmupd ''id'' (JStr ''a'') fmempty, fmupd ''id'' (JStr ''b'') fmempty, fmupd ''id'' (JStr ''c'') fmempty]) =
     [fmupd ''id'' (JStr ''a'') fmempty, fmupd ''id'' (JStr ''c'') fmempty] \<and>
   \<not> list_ex (has_id ''b'') [fmupd ''id'' (JStr ''a'') fmempty, fmupd ''id'' (JStr ''c'') fmempty] \<and>
   map_option (\<lambda>r. (status r, content r))
     (reply (delete_movie \<lparr>origin = None, params_id = ''b'', query_genre = None, body = None\<rparr>
     [fmupd ''id'' (JStr ''a'') fmempty, fmupd ''id'' (JStr ''b'') fmempty, fmupd ''id'' (JStr ''c'') fmempty])) =
     Some (200, JsonMessage ''Movie deleted'')"
proof -
  let ?req = "\<lparr>origin = None, params_id = ''b'', query_genre = None, body = None\<rparr>"
  let ?ms = "[fmupd ''id'' (JStr ''a'') fmempty, fmupd ''id'' (JStr ''b'') fmempty, fmupd ''id'' (JStr ''c'') fmempty]"
  have p: "list_ex (has_id (params_id ?req)) ?ms"
    by (simp add: has_id_def)
  have i: "findIndex (has_id (params_id ?req)) ?ms = Some 1"
    by (simp add: has_id_def)
  have o: "out_movies (delete_movie ?req ?ms) = [fmupd ''id'' (JStr ''a'') fmempty, fmupd ''id'' (JStr ''c'') fmempty]"
    by (simp add: delete_movie_present [OF i] out_movies_respond splice1_def)
  have n: "\<not> list_ex (has_id ''b'') [fmupd ''id'' (JStr ''a'') fmempty, fmupd ''id'' (JStr ''c'') fmempty]"
    by (simp add: has_id_def)
  from delete_removes_one [OF p] p o n show ?thesis by auto
qed

section \<open>The origin gate\<close>

text \<open>
  The three handlers that contain the origin check, \<^verbatim>\<open>GET /movies\<close>,
  \<^verbatim>\<open>DELETE /movies/:id\<close> and \<^verbatim>\<open>OPTIONS /movies/:id\<close>, do what the gate of the
  specification decides: a listed origin gets \<^verbatim>\<open>Access-Control-Allow-Origin\<close> set to
  exactly that origin (the pre-flight adds the permitted methods and headers; the
  allow-list holds no wildcard), an absent or unlisted origin gets no access-control
  header, and the status, the content, the collection and the exception, if any, are what
  they are for any other origin.
\<close>

lemma gated_routes_origin_check:
  "res_headers (out_res (get_movies req movies)) = spec_authorize (origin req) \<and>
   (\<forall>r. reply (get_movies req movies) = Some r \<longrightarrow> headers r = spec_authorize (origin req)) \<and>
   business (get_movies (req\<lparr>origin := og\<rparr>) movies) = business (get_movies req movies) \<and>
   map_option headers (reply (delete_movie req movies)) = Some (spec_authorize (origin req)) \<and>
   business (delete_movie (req\<lparr>origin := og\<rparr>) movies) = business (delete_movie req movies) \<and>
   map_option (\<lambda>r. (status r, headers r)) (reply (options_movie req movies)) =
     Some (200, spec_authorize_preflight (origin req)) \<and>
   business (options_movie (req\<lparr>origin := og\<rparr>) movies) = business (options_movie req movies) \<and>
   ''*'' \<notin> set ACCEPTED_ORIGINS"
proof -
  have "''*'' \<notin> set ACCEPTED_ORIGINS" by (simp add: ACCEPTED_ORIGINS_def)
  moreover have "\<forall>r. reply (get_movies req movies) = Some r \<longrightarrow> headers r = spec_authorize (origin req)"
    using get_movies_headers [of req movies] by (rule conjunct2)
  ultimately show ?thesis
    by (simp only: get_movies_headers get_movies_business delete_movie_gate options_movie_gate
        simp_thms)
qed

text \<open>
  C9, at an input where the code departs from it. The claim: every request whose
  \<^verbatim>\<open>Origin\<close> is in the allow-list is answered with \<^verbatim>\<open>Access-Control-Allow-Origin\<close> set
  to that origin. The handlers of \<^verbatim>\<open>GET /movies/:id\<close>, \<^verbatim>\<open>POST /movies\<close> and
  \<^verbatim>\<open>PATCH /movies/:id\<close> lack the origin check that their siblings have. For the listed
  origin \<^verbatim>\<open>http://localhost:8080\<close>: the pre-flight of \<^verbatim>\<open>/movies/a\<close> grants it the
  methods \<^verbatim>\<open>GET, POST, PATCH, DELETE\<close>, and \<^verbatim>\<open>GET /movies\<close> sets the header for it; the
  replies to \<^verbatim>\<open>PATCH /movies/a\<close> and to \<^verbatim>\<open>GET /movies/a\<close> carry no access-control
  header.
\<close>

theorem origin_check_missing_on_patch:
  "''http://localhost:8080'' \<in> set ACCEPTED_ORIGINS \<and>
   map_option (\<lambda>r. (status r, headers r)) (reply (options_movie
      \<lparr>origin = Some ''http://localhost:8080'', params_id = ''a'', query_genre = None, body = None\<rparr>
      [fmap_of_list [(''id'', JStr ''a''), (''rating'', JNum 5)]])) =
     Some (200, [(''Access-Control-Allow-Origin'', ''http://localhost:8080''),
                 (''Access-Control-Allow-Methods'', ''GET, POST, PATCH, DELETE''),
                 (''Access-Control-Allow-Headers'', ''Content-Type, Authorization'')]) \<and>
   reply (get_movies
      \<lparr>origin = Some ''http://localhost:8080'', params_id = [], query_genre = None, body = None\<rparr>
      [fmap_of_list [(''id'', JStr ''a''), (''rating'', JNum 5)]]) =
     Some \<lparr>status = 200, headers = [(''Access-Control-Allow-Origin'', ''http://localhost:8080'')],
            content = JsonMovies [fmap_of_list [(''id'', JStr ''a''), (''rating'', JNum 5)]]\<rparr> \<and>
   reply (patch_movie 2025
      \<lparr>origin = Some ''http://localhost:8080'', params_id = ''a'', query_genre = None,
       body = Some (JObj (fmap_of_list [(''rating'', JNum 9)]))\<rparr>
      [fmap_of_list [(''id'', JStr ''a''), (''rating'', JNum 5)]]) =
     Some \<lparr>status = 201, headers = [],
            content = JsonMovie (fmap_of_list [(''id'', JStr ''a''), (''rating'', JNum 9)])\<rparr> \<and>
   reply (get_movie
      \<lparr>origin = Some ''http://localhost:8080'', params_id = ''a'', query_genre = None, body = None\<rparr>
      [fmap_of_list [(''id'', JStr ''a''), (''rating'', JNum 5)]]) =
     Some \<lparr>status = 200, headers = [],
            content = JsonMovie (fmap_of_list [(''id'', JStr ''a''), (''rating'', JNum 5)])\<rparr>"
proof -
  let ?og = "Some ''http://localhost:8080''"
  let ?old = "fmap_of_list [(''id'', JStr ''a''), (''rating'', JNum 5)]"
  let ?new = "fmap_of_list [(''id'', JStr ''a''), (''rating'', JNum 9)]"
  let ?b = "fmap_of_list [(''rating'', JNum 9)]"
  let ?patch = "\<lparr>origin = ?og, params_id = ''a'', query_genre = None, body = Some (JObj ?b)\<rparr>"
  have 1: "''http://localhost:8080'' \<in> set ACCEPTED_ORIGINS"
    by (simp add: ACCEPTED_ORIGINS_def)
  have 2: "map_option (\<lambda>r. (status r, headers r)) (reply (options_movie
      \<lparr>origin = ?og, params_id = ''a'', query_genre = None, body = None\<rparr> [?old])) =
     Some (200, [(''Access-Control-Allow-Origin'', ''http://localhost:8080''),
                 (''Access-Control-Allow-Methods'', ''GET, POST, PATCH, DELETE''),
                 (''Access-Control-Allow-Headers'', ''Content-Type, Authorization'')])"
    by (simp add: options_movie_gate spec_authorize_preflight_def ACCEPTED_ORIGINS_def
        del: fmap_of_list_simps)
  have 3: "reply (get_movies
      \<lparr>origin = ?og, params_id = [], query_genre = None, body = None\<rparr> [?old]) =
     Some \<lparr>status = 200, headers = [(''Access-Control-Allow-Origin'', ''http://localhost:8080'')],
            content = JsonMovies [?old]\<rparr>"
    by (simp add: get_movies_def Let_def respond_headers sent_cors sent_res0 res_headers_cors
        spec_authorize_def ACCEPTED_ORIGINS_def del: fmap_of_list_simps)
  have "spec_validatePartial 2025 ?b"
    by (simp add: spec_validatePartial_def FIELDS_def spec_field_partial_def constraint_simps)
  then have v: "validateMoviePartial 2025 (body ?patch) = Success (spec_fields ?b)"
    by (simp add: validateMoviePartial_object del: fmap_of_list_simps)
  have m: "?old ++\<^sub>f spec_fields ?b = ?new"
    by (rule fmap_ext, subst lookup_merge) (auto simp: FIELDS_def)
  have 4: "reply (patch_movie 2025 ?patch [?old]) =
     Some \<lparr>status = 201, headers = [], content = JsonMovie ?new\<rparr>"
    by (simp add: patch_movie_Success [OF v] has_id_def fmlookup_of_list respond_headers sent_res0
        res_headers_res0 m del: fmap_of_list_simps)
  have 5: "reply (get_movie
      \<lparr>origin = ?og, params_id = ''a'', query_genre = None, body = None\<rparr> [?old]) =
     Some \<lparr>status = 200, headers = [], content = JsonMovie ?old\<rparr>"
    by (simp add: get_movie_def has_id_def respond_headers sent_res0 res_headers_res0)
  from 1 2 3 4 5 show ?thesis by (intro conjI)
qed

end
